theory Spec2Isabelle
  imports Main
begin

section \<open>Merchant node records, announcements and pings (src/tpos/merchantnode.cpp)\<close>

text \<open>
  A shallow embedding of \<^verbatim>\<open>merchantnode.cpp\<close>. Every member function becomes a HOL
  function that takes the object it is called on and returns the object as the call
  leaves it. The collaborators the file reaches through globals (the clock, the chain
  state, the sync status, the local identity, the signer) are read from one record
  \<open>env\<close>, a snapshot taken for the duration of one entry-point call. The C++ \<^verbatim>\<open>int\<close> and
  \<^verbatim>\<open>int64_t\<close> values are modelled as \<open>int\<close>: signed overflow is undefined in the
  source, and heights, times and scores stay far away from the bounds.
\<close>

subsection \<open>Data\<close>

type_synonym uint256 = nat
type_synonym CPubKey = nat
type_synonym bytes = "nat list"
type_synonym CScript = "nat list"

text \<open>\<^verbatim>\<open>COutPoint\<close>: transaction id and output index (the member \<^verbatim>\<open>n\<close> is called \<open>nOut\<close>).\<close>

record COutPoint =
  hash :: uint256
  nOut :: nat

record CTxIn =
  prevout :: COutPoint
  scriptSig :: CScript
  nSequence :: nat

record CTxOut =
  nValue :: int
  scriptPubKey :: CScript

record CTransaction =
  vout :: "CTxOut list"

record Coin =
  out :: CTxOut
  nHeight :: int

record CBlockIndex =
  nHeight :: int
  nTime :: int
  phashBlock :: uint256

record CService =
  ip :: nat
  port :: nat

datatype CollateralStatus =
  COLLATERAL_OK | COLLATERAL_UTXO_NOT_FOUND | COLLATERAL_INVALID_AMOUNT

datatype state =
  MERCHANTNODE_PRE_ENABLED
| MERCHANTNODE_ENABLED
| MERCHANTNODE_EXPIRED
| MERCHANTNODE_OUTPOINT_SPENT
| MERCHANTNODE_UPDATE_REQUIRED
| MERCHANTNODE_WATCHDOG_EXPIRED
| MERCHANTNODE_NEW_START_REQUIRED
| MERCHANTNODE_POSE_BAN

text \<open>The local node's own identity (\<^verbatim>\<open>activeMerchantnode\<close>), as far as this file reads it.\<close>

record CActiveMerchantnode =
  outpoint :: COutPoint
  pubKeyMerchantnode :: CPubKey

record CMerchantnodePing =
  vin :: CTxIn
  blockHash :: uint256
  sigTime :: int
  vchSig :: bytes

text \<open>
  \<^verbatim>\<open>CMerchantnode\<close> with the members of its base \<^verbatim>\<open>merchantnode_info_t\<close> that this file
  reads or writes. \<^verbatim>\<open>CMerchantnodeBroadcast\<close> derives from it and adds the recovery flag.
\<close>

record CMerchantnode =
  nActiveState :: state
  nProtocolVersion :: int
  sigTime :: int
  vin :: CTxIn
  addr :: CService
  pubKeyCollateralAddress :: CPubKey
  pubKeyMerchantnode :: CPubKey
  nTimeLastWatchdogVote :: int
  nTimeLastChecked :: int
  lastPing :: CMerchantnodePing
  vchSig :: bytes
  nCollateralMinConfBlockHash :: uint256
  nBlockLastPaid :: int
  nPoSeBanScore :: int
  nPoSeBanHeight :: int
  fUnitTest :: bool

record CMerchantnodeBroadcast = CMerchantnode +
  fRecovery :: bool

datatype inv_type = MSG_MERCHANTNODE_ANNOUNCE | MSG_MERCHANTNODE_PING

type_synonym CInv = "inv_type \<times> uint256"

text \<open>
  What the calls change outside the record they are applied to: the two seen-message maps
  of \<^verbatim>\<open>merchantnodeman\<close>, the inventory handed to \<^verbatim>\<open>connman.RelayInv\<close> (latest last) and
  the calls of \<^verbatim>\<open>merchantnodeSync.BumpAssetLastTime\<close>.
\<close>

record shared =
  mapSeenMerchantnodeBroadcast :: "uint256 \<rightharpoonup> (int \<times> CMerchantnodeBroadcast)"
  mapSeenMerchantnodePing :: "uint256 \<rightharpoonup> CMerchantnodePing"
  vRelayInv :: "CInv list"
  vBumpAssetLastTime :: "string list"

text \<open>
  The collaborators, read-only during one call. The constants come from headers that are
  not part of the file (\<^verbatim>\<open>merchantnode.h\<close>, \<^verbatim>\<open>amount.h\<close>, \<^verbatim>\<open>version.h\<close>, the consensus
  parameters) and are taken as parameters. \<open>lockMain\<close> is the outcome of
  \<^verbatim>\<open>TRY_LOCK(cs_main, lockMain)\<close>. \<open>vChain\<close> is the active chain, genesis first;
  \<open>mapBlockIndex\<close> maps a block hash to a pointer that may be null (\<open>Some None\<close>).
  \<open>ManageState\<close> is \<^verbatim>\<open>activeMerchantnode.ManageState(connman)\<close>, whose body lives in another
  file: it is a parameter acting on the record and the shared state.
\<close>

record env =
  MERCHANTNODE_CHECK_SECONDS :: int
  MERCHANTNODE_MIN_MNB_SECONDS :: int
  MERCHANTNODE_MIN_MNP_SECONDS :: int
  MERCHANTNODE_EXPIRATION_SECONDS :: int
  MERCHANTNODE_WATCHDOG_MAX_SECONDS :: int
  MERCHANTNODE_NEW_START_REQUIRED_SECONDS :: int
  MERCHANTNODE_POSE_BAN_MAX_SCORE :: int
  PROTOCOL_VERSION :: int
  COIN :: int
  nMasternodeMinimumConfirmations :: int
  ShutdownRequested :: bool
  GetTime :: int
  GetAdjustedTime :: int
  lockMain :: bool
  GetUTXOCoin :: "COutPoint \<Rightarrow> Coin option"
  vChain :: "CBlockIndex list"
  mapBlockIndex :: "uint256 \<rightharpoonup> CBlockIndex option"
  GetTransaction :: "uint256 \<Rightarrow> (CTransaction \<times> uint256) option"
  GetScriptForDestination :: "CPubKey \<Rightarrow> CScript"
  fMerchantNode :: bool
  activeMerchantnode :: CActiveMerchantnode
  IsMerchantnodeListSynced :: bool
  IsSynced :: bool
  IsWatchdogActive :: bool
  merchantnodeman_size :: int
  VerifyMessage :: "CPubKey \<Rightarrow> bytes \<Rightarrow> string \<Rightarrow> bool"
  addr_ToString :: "CService \<Rightarrow> string"
  vin_ToString :: "CTxIn \<Rightarrow> string"
  KeyID_ToString :: "CPubKey \<Rightarrow> string"
  uint256_ToString :: "uint256 \<Rightarrow> string"
  lexical_cast :: "int \<Rightarrow> string"
  mnb_GetHash :: "CMerchantnodeBroadcast \<Rightarrow> uint256"
  mnp_GetHash :: "CMerchantnodePing \<Rightarrow> uint256"
  ManageState :: "CMerchantnode \<times> shared \<Rightarrow> CMerchantnode \<times> shared"

subsection \<open>The chain oracle\<close>

text \<open>\<^verbatim>\<open>chainActive.Height()\<close>: the index of the tip, \<open>-1\<close> on an empty chain.\<close>

definition chainActive_Height :: "env \<Rightarrow> int" where
  "chainActive_Height e = int (length (vChain e)) - 1"

text \<open>\<^verbatim>\<open>chainActive[h]\<close>: the block at height \<open>h\<close>, null outside the chain.\<close>

definition chainActive_at :: "env \<Rightarrow> int \<Rightarrow> CBlockIndex option" where
  "chainActive_at e h =
     (if h < 0 \<or> int (length (vChain e)) \<le> h then None else Some (vChain e ! nat h))"

subsection \<open>Inline members of the header\<close>

text \<open>
  Modelled from the spec: the state predicates and the small helpers of \<^verbatim>\<open>CMerchantnode\<close>
  and \<^verbatim>\<open>CMerchantnodePing\<close> are defined inline in \<^verbatim>\<open>merchantnode.h\<close>, which is missing.
  The spec's data model gives \<open>lifecycleState\<close> as one of eight values and speaks of a
  record being "currently PoSe-banned", "EXPIRED/WATCHDOG_EXPIRED/NEW_START_REQUIRED",
  so each predicate is the comparison of \<open>nActiveState\<close> with its state.
\<close>

definition IsEnabled :: "'a CMerchantnode_scheme \<Rightarrow> bool" where
  "IsEnabled mn = (nActiveState mn = MERCHANTNODE_ENABLED)"

definition IsPreEnabled :: "'a CMerchantnode_scheme \<Rightarrow> bool" where
  "IsPreEnabled mn = (nActiveState mn = MERCHANTNODE_PRE_ENABLED)"

definition IsPoSeBanned :: "'a CMerchantnode_scheme \<Rightarrow> bool" where
  "IsPoSeBanned mn = (nActiveState mn = MERCHANTNODE_POSE_BAN)"

definition IsExpired :: "'a CMerchantnode_scheme \<Rightarrow> bool" where
  "IsExpired mn = (nActiveState mn = MERCHANTNODE_EXPIRED)"

definition IsOutpointSpent :: "'a CMerchantnode_scheme \<Rightarrow> bool" where
  "IsOutpointSpent mn = (nActiveState mn = MERCHANTNODE_OUTPOINT_SPENT)"

definition IsUpdateRequired :: "'a CMerchantnode_scheme \<Rightarrow> bool" where
  "IsUpdateRequired mn = (nActiveState mn = MERCHANTNODE_UPDATE_REQUIRED)"

definition IsWatchdogExpired :: "'a CMerchantnode_scheme \<Rightarrow> bool" where
  "IsWatchdogExpired mn = (nActiveState mn = MERCHANTNODE_WATCHDOG_EXPIRED)"

definition IsNewStartRequired :: "'a CMerchantnode_scheme \<Rightarrow> bool" where
  "IsNewStartRequired mn = (nActiveState mn = MERCHANTNODE_NEW_START_REQUIRED)"

text \<open>
  Modelled from the spec: the default-constructed ping \<^verbatim>\<open>CMerchantnodePing()\<close>, the spec's
  "empty" heartbeat: a null input, a zero block hash, time zero and no signature. The
  comparison \<^verbatim>\<open>lastPing == CMerchantnodePing()\<close> of the header is equality with it.
\<close>

definition CTxIn_null :: CTxIn where
  "CTxIn_null = \<lparr>prevout = \<lparr>hash = 0, nOut = 4294967295\<rparr>, scriptSig = [], nSequence = 4294967295\<rparr>"

definition CMerchantnodePing_empty :: CMerchantnodePing where
  "CMerchantnodePing_empty =
     \<lparr>CMerchantnodePing.vin = CTxIn_null, blockHash = 0,
      CMerchantnodePing.sigTime = 0, CMerchantnodePing.vchSig = []\<rparr>"

text \<open>
  Modelled from the spec: \<^verbatim>\<open>IsPingedWithin(nSeconds, nTimeToCheckAt = -1)\<close>, "has heartbeat
  within" an interval: never for an empty heartbeat, otherwise the heartbeat's timestamp is
  less than \<open>nSeconds\<close> before the time checked at (the adjusted time by default).
\<close>

definition IsPingedWithin :: "env \<Rightarrow> 'a CMerchantnode_scheme \<Rightarrow> int \<Rightarrow> int \<Rightarrow> bool" where
  "IsPingedWithin e mn nSeconds nTimeToCheckAt =
     (if lastPing mn = CMerchantnodePing_empty then False
      else (if nTimeToCheckAt = -1 then GetAdjustedTime e else nTimeToCheckAt)
             - CMerchantnodePing.sigTime (lastPing mn) < nSeconds)"

text \<open>
  Modelled from the spec: \<^verbatim>\<open>IsBroadcastedWithin(nSeconds)\<close>, "the existing record has
  itself broadcast within a minimum interval": its \<open>sigTime\<close> is less than \<open>nSeconds\<close>
  before the adjusted time.
\<close>

definition IsBroadcastedWithin :: "env \<Rightarrow> 'a CMerchantnode_scheme \<Rightarrow> int \<Rightarrow> bool" where
  "IsBroadcastedWithin e mn nSeconds = (GetAdjustedTime e - sigTime mn < nSeconds)"

text \<open>
  Modelled from the spec: \<^verbatim>\<open>DecreasePoSeBanScore()\<close>, "decay ban score downward" with the
  score "clamped": one step down, not below the negated maximum.
\<close>

definition DecreasePoSeBanScore :: "env \<Rightarrow> 'a CMerchantnode_scheme \<Rightarrow> 'a CMerchantnode_scheme" where
  "DecreasePoSeBanScore e mn =
     (if - MERCHANTNODE_POSE_BAN_MAX_SCORE e < nPoSeBanScore mn
      then mn\<lparr>nPoSeBanScore := nPoSeBanScore mn - 1\<rparr> else mn)"

subsection \<open>\<^verbatim>\<open>CMerchantnode::CheckCollateral\<close>\<close>

text \<open>
  The reference parameter \<^verbatim>\<open>nHeightRet\<close> is passed in and returned: it is written only on
  \<open>COLLATERAL_OK\<close>.
\<close>

definition CheckCollateral :: "env \<Rightarrow> COutPoint \<Rightarrow> int \<Rightarrow> CollateralStatus \<times> int" where
  "CheckCollateral e outp nHeightRet =
     (case GetUTXOCoin e outp of
        None \<Rightarrow> (COLLATERAL_UTXO_NOT_FOUND, nHeightRet)
      | Some coin \<Rightarrow>
          if nValue (out coin) \<noteq> 1000 * COIN e then (COLLATERAL_INVALID_AMOUNT, nHeightRet)
          else (COLLATERAL_OK, Coin.nHeight coin))"

text \<open>The one-argument overload passes a local \<^verbatim>\<open>int nHeight\<close> and drops it.\<close>

definition CheckCollateral1 :: "env \<Rightarrow> COutPoint \<Rightarrow> CollateralStatus" where
  "CheckCollateral1 e outp = fst (CheckCollateral e outp 0)"

subsection \<open>\<^verbatim>\<open>CMerchantnode::Check\<close>\<close>

text \<open>Lines 227 to 238: the last two outcomes, PRE_ENABLED or ENABLED.\<close>

definition Check_enabled :: "env \<Rightarrow> 'a CMerchantnode_scheme \<Rightarrow> 'a CMerchantnode_scheme" where
  "Check_enabled e mn =
     (if CMerchantnodePing.sigTime (lastPing mn) - sigTime mn < MERCHANTNODE_MIN_MNP_SECONDS e
      then mn\<lparr>nActiveState := MERCHANTNODE_PRE_ENABLED\<rparr>
      else mn\<lparr>nActiveState := MERCHANTNODE_ENABLED\<rparr>)"

text \<open>Lines 166 to 225: update required, waiting for a ping, and the three expiries.\<close>

definition Check_lifecycle :: "env \<Rightarrow> 'a CMerchantnode_scheme \<Rightarrow> 'a CMerchantnode_scheme" where
  "Check_lifecycle e mn =
     (let fOurMasternode =
            (fMerchantNode e \<and>
             CActiveMerchantnode.pubKeyMerchantnode (activeMerchantnode e) = pubKeyMerchantnode mn);
          fRequireUpdate = (fOurMasternode \<and> nProtocolVersion mn < PROTOCOL_VERSION e)
      in if fRequireUpdate then mn\<lparr>nActiveState := MERCHANTNODE_UPDATE_REQUIRED\<rparr>
         else
           let fWaitForPing =
                 (\<not> IsMerchantnodeListSynced e \<and>
                  \<not> IsPingedWithin e mn (MERCHANTNODE_MIN_MNP_SECONDS e) (-1))
           in if fWaitForPing \<and> \<not> fOurMasternode \<and>
                 (IsExpired mn \<or> IsWatchdogExpired mn \<or> IsNewStartRequired mn)
              then mn
              else if \<not> fWaitForPing \<or> fOurMasternode then
                (if \<not> IsPingedWithin e mn (MERCHANTNODE_NEW_START_REQUIRED_SECONDS e) (-1)
                 then mn\<lparr>nActiveState := MERCHANTNODE_NEW_START_REQUIRED\<rparr>
                 else
                   let fWatchdogActive = (IsSynced e \<and> IsWatchdogActive e);
                       fWatchdogExpired =
                         (fWatchdogActive \<and>
                          MERCHANTNODE_WATCHDOG_MAX_SECONDS e
                            < GetAdjustedTime e - nTimeLastWatchdogVote mn)
                   in if fWatchdogExpired
                      then mn\<lparr>nActiveState := MERCHANTNODE_WATCHDOG_EXPIRED\<rparr>
                      else if \<not> IsPingedWithin e mn (MERCHANTNODE_EXPIRATION_SECONDS e) (-1)
                      then mn\<lparr>nActiveState := MERCHANTNODE_EXPIRED\<rparr>
                      else Check_enabled e mn)
              else Check_enabled e mn)"

text \<open>
  Lines 151 to 164: the PoSe ban. \<open>height\<close> is the local \<^verbatim>\<open>nHeight\<close>: the height of the
  active chain, or 0 when the record is in unit-test mode.
\<close>

definition Check_pose :: "env \<Rightarrow> int \<Rightarrow> 'a CMerchantnode_scheme \<Rightarrow> 'a CMerchantnode_scheme" where
  "Check_pose e height mn =
     (if IsPoSeBanned mn then
        (if height < nPoSeBanHeight mn then mn
         else Check_lifecycle e (DecreasePoSeBanScore e mn))
      else if MERCHANTNODE_POSE_BAN_MAX_SCORE e \<le> nPoSeBanScore mn then
        mn\<lparr>nActiveState := MERCHANTNODE_POSE_BAN,
           nPoSeBanHeight := height + merchantnodeman_size e\<rparr>
      else Check_lifecycle e mn)"

text \<open>
  The whole of \<^verbatim>\<open>Check(bool fForce)\<close>: shutdown, the re-check interval, the spent record,
  the collateral (outside unit-test mode, under the chain lock), then the stages above.
\<close>

definition Check :: "env \<Rightarrow> bool \<Rightarrow> 'a CMerchantnode_scheme \<Rightarrow> 'a CMerchantnode_scheme" where
  "Check e fForce mn0 =
     (if ShutdownRequested e then mn0
      else if \<not> fForce \<and> GetTime e - nTimeLastChecked mn0 < MERCHANTNODE_CHECK_SECONDS e
      then mn0
      else
        let mn = mn0\<lparr>nTimeLastChecked := GetTime e\<rparr>
        in if IsOutpointSpent mn then mn
           else if \<not> fUnitTest mn then
             (if \<not> lockMain e then mn
              else if CheckCollateral1 e (prevout (vin mn)) = COLLATERAL_UTXO_NOT_FOUND
              then mn\<lparr>nActiveState := MERCHANTNODE_OUTPOINT_SPENT\<rparr>
              else Check_pose e (chainActive_Height e) mn)
           else Check_pose e 0 mn)"

subsection \<open>Signatures\<close>

text \<open>
  \<^verbatim>\<open>CMerchantnodeBroadcast::CheckSignature(int& nDos)\<close>. The reference parameter is set
  on entry, so the call returns it with the result: \<open>(accepted, nDos)\<close>.
\<close>

definition mnb_strMessage :: "env \<Rightarrow> CMerchantnodeBroadcast \<Rightarrow> string" where
  "mnb_strMessage e mnb =
     addr_ToString e (addr mnb) @ lexical_cast e (sigTime mnb) @
     KeyID_ToString e (pubKeyCollateralAddress mnb) @ KeyID_ToString e (pubKeyMerchantnode mnb) @
     lexical_cast e (nProtocolVersion mnb)"

definition mnb_CheckSignature :: "env \<Rightarrow> CMerchantnodeBroadcast \<Rightarrow> bool \<times> int" where
  "mnb_CheckSignature e mnb =
     (if \<not> VerifyMessage e (pubKeyCollateralAddress mnb) (vchSig mnb) (mnb_strMessage e mnb)
      then (False, 100) else (True, 0))"

text \<open>\<^verbatim>\<open>CMerchantnodePing::CheckSignature(CPubKey& pubKeyMasternode, int& nDos)\<close>.\<close>

definition mnp_strMessage :: "env \<Rightarrow> CMerchantnodePing \<Rightarrow> string" where
  "mnp_strMessage e mnp =
     vin_ToString e (CMerchantnodePing.vin mnp) @ uint256_ToString e (blockHash mnp) @
     lexical_cast e (CMerchantnodePing.sigTime mnp)"

definition mnp_CheckSignature :: "env \<Rightarrow> CMerchantnodePing \<Rightarrow> CPubKey \<Rightarrow> bool \<times> int" where
  "mnp_CheckSignature e mnp pubKeyMasternode =
     (if \<not> VerifyMessage e pubKeyMasternode (CMerchantnodePing.vchSig mnp) (mnp_strMessage e mnp)
      then (False, 33) else (True, 0))"

subsection \<open>Relay and the shared maps\<close>

definition mnb_Relay :: "env \<Rightarrow> CMerchantnodeBroadcast \<Rightarrow> shared \<Rightarrow> shared" where
  "mnb_Relay e mnb sh =
     (if \<not> IsSynced e then sh
      else sh\<lparr>vRelayInv := vRelayInv sh @ [(MSG_MERCHANTNODE_ANNOUNCE, mnb_GetHash e mnb)]\<rparr>)"

definition mnp_Relay :: "env \<Rightarrow> CMerchantnodePing \<Rightarrow> shared \<Rightarrow> shared" where
  "mnp_Relay e mnp sh =
     (if \<not> IsSynced e then sh
      else sh\<lparr>vRelayInv := vRelayInv sh @ [(MSG_MERCHANTNODE_PING, mnp_GetHash e mnp)]\<rparr>)"

definition BumpAssetLastTime :: "string \<Rightarrow> shared \<Rightarrow> shared" where
  "BumpAssetLastTime strFuncName sh =
     sh\<lparr>vBumpAssetLastTime := vBumpAssetLastTime sh @ [strFuncName]\<rparr>"

text \<open>\<^verbatim>\<open>mapSeenMerchantnodeBroadcast.erase(GetHash())\<close>.\<close>

definition erase_seen_mnb :: "env \<Rightarrow> CMerchantnodeBroadcast \<Rightarrow> shared \<Rightarrow> shared" where
  "erase_seen_mnb e mnb sh =
     sh\<lparr>mapSeenMerchantnodeBroadcast := (mapSeenMerchantnodeBroadcast sh)(mnb_GetHash e mnb := None)\<rparr>"

text \<open>\<^verbatim>\<open>mapSeenMerchantnodePing.insert(...)\<close>: \<^verbatim>\<open>std::map::insert\<close> keeps an entry that is there.\<close>

definition insert_seen_mnp :: "env \<Rightarrow> CMerchantnodePing \<Rightarrow> shared \<Rightarrow> shared" where
  "insert_seen_mnp e mnp sh =
     (case mapSeenMerchantnodePing sh (mnp_GetHash e mnp) of
        Some _ \<Rightarrow> sh
      | None \<Rightarrow> sh\<lparr>mapSeenMerchantnodePing := (mapSeenMerchantnodePing sh)(mnp_GetHash e mnp \<mapsto> mnp)\<rparr>)"

text \<open>
  Modelled from the spec: the constructor \<^verbatim>\<open>CMerchantnodeBroadcast(const CMerchantnode&)\<close> of
  the header: a copy of the record, the recovery flag unset.
\<close>

definition CMerchantnodeBroadcast_of :: "CMerchantnode \<Rightarrow> CMerchantnodeBroadcast" where
  "CMerchantnodeBroadcast_of mn = CMerchantnode.extend mn (CMerchantnodeBroadcast.fields False)"

text \<open>Lines 759 to 763: the cached announcement of the record gets the new ping.\<close>

definition patch_seen_mnb :: "env \<Rightarrow> CMerchantnode \<Rightarrow> CMerchantnodePing \<Rightarrow> shared \<Rightarrow> shared" where
  "patch_seen_mnb e mn mnp sh =
     (let h = mnb_GetHash e (CMerchantnodeBroadcast_of mn)
      in case mapSeenMerchantnodeBroadcast sh h of
           None \<Rightarrow> sh
         | Some (t, b) \<Rightarrow>
             sh\<lparr>mapSeenMerchantnodeBroadcast :=
                  (mapSeenMerchantnodeBroadcast sh)(h \<mapsto> (t, b\<lparr>lastPing := mnp\<rparr>))\<rparr>)"

subsection \<open>\<^verbatim>\<open>CMerchantnodePing\<close>\<close>

text \<open>C++ integer division truncates towards zero.\<close>

definition cdiv :: "int \<Rightarrow> int \<Rightarrow> int" where
  "cdiv a b = (if (a < 0) = (b < 0) then \<bar>a\<bar> div \<bar>b\<bar> else - (\<bar>a\<bar> div \<bar>b\<bar>))"

text \<open>\<^verbatim>\<open>CMerchantnodePing::SimpleCheck(int& nDos)\<close>, returning \<open>(accepted, nDos)\<close>.\<close>

definition mnp_SimpleCheck :: "env \<Rightarrow> CMerchantnodePing \<Rightarrow> bool \<times> int" where
  "mnp_SimpleCheck e mnp =
     (if GetAdjustedTime e + 60 * 60 < CMerchantnodePing.sigTime mnp then (False, 1)
      else if mapBlockIndex e (blockHash mnp) = None then (False, 0)
      else (True, 0))"

text \<open>
  \<^verbatim>\<open>CMerchantnodePing::CheckAndUpdate\<close> from line 709 on, where \<^verbatim>\<open>pmn\<close> is known not to be
  null and \<^verbatim>\<open>nDos\<close> is 0. The result is \<open>(relay, nDos, *pmn, shared state)\<close>. At line 723
  the iterator is the one \<^verbatim>\<open>SimpleCheck\<close> has just found in the same map, so the lookup
  succeeds; the pointer it holds may be null.
\<close>

definition CheckAndUpdate_found ::
  "env \<Rightarrow> CMerchantnodePing \<Rightarrow> CMerchantnode \<Rightarrow> bool \<Rightarrow> shared
     \<Rightarrow> bool \<times> int \<times> CMerchantnode \<times> shared" where
  "CheckAndUpdate_found e mnp mn fFromNewBroadcast sh =
     (if \<not> fFromNewBroadcast \<and> IsUpdateRequired mn then (False, 0, mn, sh)
      else if \<not> fFromNewBroadcast \<and> IsNewStartRequired mn then (False, 0, mn, sh)
      else if (case mapBlockIndex e (blockHash mnp) of
                 Some (Some pindex) \<Rightarrow> CBlockIndex.nHeight pindex < chainActive_Height e - 24
               | _ \<Rightarrow> False)
      then (False, 0, mn, sh)
      else if IsPingedWithin e mn (MERCHANTNODE_MIN_MNP_SECONDS e - 60)
                (CMerchantnodePing.sigTime mnp)
      then (False, 0, mn, sh)
      else
        case mnp_CheckSignature e mnp (pubKeyMerchantnode mn) of
          (False, nDos) \<Rightarrow> (False, nDos, mn, sh)
        | (True, nDos) \<Rightarrow>
            let sh1 = (if \<not> IsMerchantnodeListSynced e \<and>
                          \<not> IsPingedWithin e mn (cdiv (MERCHANTNODE_EXPIRATION_SECONDS e) 2) (-1)
                       then BumpAssetLastTime ''CMerchantnodePing::CheckAndUpdate'' sh
                       else sh);
                mn1 = mn\<lparr>lastPing := mnp\<rparr>;
                sh2 = patch_seen_mnb e mn1 mnp sh1;
                mn2 = Check e True mn1
            in if \<not> IsEnabled mn2 \<and> \<not> IsExpired mn2 \<and> \<not> IsWatchdogExpired mn2
               then (False, nDos, mn2, sh2)
               else (True, nDos, mn2, mnp_Relay e mnp sh2))"

text \<open>
  The whole of \<^verbatim>\<open>CheckAndUpdate(pmn, fFromNewBroadcast, nDos, connman)\<close>; \<open>None\<close> is the
  null pointer.
\<close>

definition CheckAndUpdate ::
  "env \<Rightarrow> CMerchantnodePing \<Rightarrow> CMerchantnode option \<Rightarrow> bool \<Rightarrow> shared
     \<Rightarrow> bool \<times> int \<times> CMerchantnode option \<times> shared" where
  "CheckAndUpdate e mnp pmn fFromNewBroadcast sh =
     (case mnp_SimpleCheck e mnp of
        (False, nDos) \<Rightarrow> (False, nDos, pmn, sh)
      | (True, nDos) \<Rightarrow>
          (case pmn of
             None \<Rightarrow> (False, nDos, None, sh)
           | Some mn \<Rightarrow>
               (case CheckAndUpdate_found e mnp mn fFromNewBroadcast sh of
                  (fRelay, nDos', mn', sh') \<Rightarrow> (fRelay, nDos', Some mn', sh'))))"

subsection \<open>\<^verbatim>\<open>CMerchantnode::UpdateFromNewBroadcast\<close>\<close>

text \<open>
  Lines 66 to 69. The embedded ping is applied to the record itself
  (\<^verbatim>\<open>CheckAndUpdate(this, true, ...)\<close>), which may already store it and re-check the record.
\<close>

definition apply_mnb_ping ::
  "env \<Rightarrow> CMerchantnode \<Rightarrow> CMerchantnodeBroadcast \<Rightarrow> shared \<Rightarrow> CMerchantnode \<times> shared" where
  "apply_mnb_ping e mn mnb sh =
     (if lastPing mnb = CMerchantnodePing_empty
      then (mn\<lparr>lastPing := lastPing mnb\<rparr>, insert_seen_mnp e (lastPing mnb) sh)
      else
        case CheckAndUpdate e (lastPing mnb) (Some mn) True sh of
          (True, _, Some mn', sh') \<Rightarrow>
            (mn'\<lparr>lastPing := lastPing mnb\<rparr>, insert_seen_mnp e (lastPing mnb) sh')
        | (False, _, Some mn', sh') \<Rightarrow> (mn', sh')
        | (_, _, None, sh') \<Rightarrow> (mn, sh'))"

text \<open>The result is \<open>(returned value, *this, shared state)\<close>.\<close>

definition UpdateFromNewBroadcast ::
  "env \<Rightarrow> CMerchantnode \<Rightarrow> CMerchantnodeBroadcast \<Rightarrow> shared \<Rightarrow> bool \<times> CMerchantnode \<times> shared" where
  "UpdateFromNewBroadcast e mn mnb sh =
     (if sigTime mnb \<le> sigTime mn \<and> \<not> fRecovery mnb then (False, mn, sh)
      else
        let mn1 = mn\<lparr>pubKeyMerchantnode := pubKeyMerchantnode mnb,
                     sigTime := sigTime mnb,
                     vchSig := vchSig mnb,
                     nProtocolVersion := nProtocolVersion mnb,
                     addr := addr mnb,
                     nPoSeBanScore := 0,
                     nPoSeBanHeight := 0,
                     nTimeLastChecked := 0\<rparr>
        in case apply_mnb_ping e mn1 mnb sh of
             (mn2, sh2) \<Rightarrow>
               if fMerchantNode e \<and>
                  pubKeyMerchantnode mn2
                    = CActiveMerchantnode.pubKeyMerchantnode (activeMerchantnode e)
               then
                 (let mn3 = mn2\<lparr>nPoSeBanScore := - MERCHANTNODE_POSE_BAN_MAX_SCORE e\<rparr>
                  in if nProtocolVersion mn3 = PROTOCOL_VERSION e
                     then (case ManageState e (mn3, sh2) of (mn4, sh4) \<Rightarrow> (True, mn4, sh4))
                     else (False, mn3, sh2))
               else (True, mn2, sh2))"

subsection \<open>\<^verbatim>\<open>CMerchantnodeBroadcast::Update\<close>\<close>

text \<open>
  The result is \<open>(returned value, nDos, *pmn, shared state)\<close>. \<^verbatim>\<open>pmn->Check()\<close> is called
  without an argument: the header's default, not forced.
\<close>

definition Update ::
  "env \<Rightarrow> CMerchantnodeBroadcast \<Rightarrow> CMerchantnode \<Rightarrow> shared
     \<Rightarrow> bool \<times> int \<times> CMerchantnode \<times> shared" where
  "Update e mnb mn sh =
     (if sigTime mn = sigTime mnb \<and> \<not> fRecovery mnb then (False, 0, mn, sh)
      else if sigTime mnb < sigTime mn then (False, 0, mn, sh)
      else
        let mn1 = Check e False mn
        in if IsPoSeBanned mn1 then (False, 0, mn1, sh)
           else if pubKeyCollateralAddress mn1 \<noteq> pubKeyCollateralAddress mnb
           then (False, 33, mn1, sh)
           else
             case mnb_CheckSignature e mnb of
               (False, nDos) \<Rightarrow> (False, nDos, mn1, sh)
             | (True, nDos) \<Rightarrow>
                 if \<not> IsBroadcastedWithin e mn1 (MERCHANTNODE_MIN_MNB_SECONDS e) \<or>
                    (fMerchantNode e \<and>
                     pubKeyMerchantnode mnb
                       = CActiveMerchantnode.pubKeyMerchantnode (activeMerchantnode e))
                 then
                   (case UpdateFromNewBroadcast e mn1 mnb sh of
                      (True, mn2, sh2) \<Rightarrow>
                        (True, nDos, Check e False mn2,
                         BumpAssetLastTime ''CMerchantnodeBroadcast::Update'' (mnb_Relay e mnb sh2))
                    | (False, mn2, sh2) \<Rightarrow>
                        (True, nDos, mn2,
                         BumpAssetLastTime ''CMerchantnodeBroadcast::Update'' sh2))
                 else (True, nDos, mn1, sh))"

subsection \<open>\<^verbatim>\<open>CMerchantnodeBroadcast::CheckOutpoint\<close>\<close>

primrec pays_collateral :: "env \<Rightarrow> CScript \<Rightarrow> CTxOut list \<Rightarrow> bool" where
  "pays_collateral e payee [] = False"
| "pays_collateral e payee (txout # rest) =
     (if nValue txout = 1000 * COIN e \<and> scriptPubKey txout = payee then True
      else pays_collateral e payee rest)"

definition IsInputAssociatedWithPubkey :: "env \<Rightarrow> 'a CMerchantnode_scheme \<Rightarrow> bool" where
  "IsInputAssociatedWithPubkey e mn =
     (let payee = GetScriptForDestination e (pubKeyCollateralAddress mn)
      in case GetTransaction e (hash (prevout (vin mn))) of
           Some (tx, _) \<Rightarrow> pays_collateral e payee (vout tx)
         | None \<Rightarrow> False)"

text \<open>
  Dereferencing \<^verbatim>\<open>chainActive[h]\<close> where it is null ends the process; the model returns it
  as an error.
\<close>

datatype error = NullPointer

text \<open>Lines 544 to 563: the signature time against the confirmation block.\<close>

definition CheckOutpoint_sigTime ::
  "env \<Rightarrow> CMerchantnodeBroadcast \<Rightarrow> int \<Rightarrow> shared
     \<Rightarrow> error + bool \<times> int \<times> CMerchantnodeBroadcast \<times> shared" where
  "CheckOutpoint_sigTime e mnb nDos sh =
     (let hashBlock = (case GetTransaction e (hash (prevout (vin mnb))) of
                         Some (_, h) \<Rightarrow> h | None \<Rightarrow> 0)
      in case mapBlockIndex e hashBlock of
           Some (Some pMNIndex) \<Rightarrow>
             (case chainActive_at e
                     (CBlockIndex.nHeight pMNIndex + nMasternodeMinimumConfirmations e - 1) of
                None \<Rightarrow> Inl NullPointer
              | Some pConfIndex \<Rightarrow>
                  if sigTime mnb < nTime pConfIndex then Inr (False, nDos, mnb, sh)
                  else Inr (True, nDos, mnb, sh))
         | _ \<Rightarrow> Inr (True, nDos, mnb, sh))"

text \<open>
  \<^verbatim>\<open>CheckOutpoint(int& nDos)\<close>; \<open>nDos0\<close> is what the caller's variable holds, which the call
  leaves alone when the announcement is the node's own. The result is
  \<open>(returned value, nDos, the announcement, shared state)\<close>. The local \<^verbatim>\<open>nHeight\<close> is read
  only after \<^verbatim>\<open>CheckCollateral\<close> has written it.
\<close>

definition CheckOutpoint ::
  "env \<Rightarrow> CMerchantnodeBroadcast \<Rightarrow> int \<Rightarrow> shared
     \<Rightarrow> error + bool \<times> int \<times> CMerchantnodeBroadcast \<times> shared" where
  "CheckOutpoint e mnb nDos0 sh =
     (if fMerchantNode e \<and> prevout (vin mnb) = outpoint (activeMerchantnode e) \<and>
         pubKeyMerchantnode mnb = CActiveMerchantnode.pubKeyMerchantnode (activeMerchantnode e)
      then Inr (False, nDos0, mnb, sh)
      else
        case mnb_CheckSignature e mnb of
          (False, nDos) \<Rightarrow> Inr (False, nDos, mnb, sh)
        | (True, nDos) \<Rightarrow>
            if \<not> lockMain e then Inr (False, nDos, mnb, erase_seen_mnb e mnb sh)
            else
              case CheckCollateral e (prevout (vin mnb)) 0 of
                (err, height) \<Rightarrow>
                  if err = COLLATERAL_UTXO_NOT_FOUND then Inr (False, nDos, mnb, sh)
                  else if err = COLLATERAL_INVALID_AMOUNT then Inr (False, nDos, mnb, sh)
                  else if chainActive_Height e - height + 1 < nMasternodeMinimumConfirmations e
                  then Inr (False, nDos, mnb, erase_seen_mnb e mnb sh)
                  else
                    case chainActive_at e (height + nMasternodeMinimumConfirmations e - 1) of
                      None \<Rightarrow> Inl NullPointer
                    | Some pindex \<Rightarrow>
                        let mnb1 = mnb\<lparr>nCollateralMinConfBlockHash := phashBlock pindex\<rparr>
                        in if \<not> IsInputAssociatedWithPubkey e mnb1
                           then Inr (False, 33, mnb1, sh)
                           else CheckOutpoint_sigTime e mnb1 nDos sh)"

subsection \<open>A sample network\<close>

text \<open>
  Concrete collaborators for evaluating the functions: a chain of 101 blocks (tip at height
  100), one collateral output of 1000 coins confirmed at height 50, a signer that accepts
  the signature \<open>[k]\<close> for the key \<open>k\<close>, a node that is synced and is not a merchant node
  itself, and the constants of the upstream masternode code.
\<close>

definition sample_outpoint :: COutPoint where
  "sample_outpoint = \<lparr>hash = 7, nOut = 0\<rparr>"

definition sample_block :: "nat \<Rightarrow> CBlockIndex" where
  "sample_block i = \<lparr>nHeight = int i, nTime = 600 * int i, phashBlock = 1000 + i\<rparr>"

definition sample_env :: env where
  "sample_env =
     \<lparr>MERCHANTNODE_CHECK_SECONDS = 5,
      MERCHANTNODE_MIN_MNB_SECONDS = 300,
      MERCHANTNODE_MIN_MNP_SECONDS = 600,
      MERCHANTNODE_EXPIRATION_SECONDS = 3900,
      MERCHANTNODE_WATCHDOG_MAX_SECONDS = 7200,
      MERCHANTNODE_NEW_START_REQUIRED_SECONDS = 10800,
      MERCHANTNODE_POSE_BAN_MAX_SCORE = 5,
      PROTOCOL_VERSION = 70208,
      COIN = 100000000,
      nMasternodeMinimumConfirmations = 15,
      ShutdownRequested = False,
      GetTime = 100000,
      GetAdjustedTime = 100000,
      lockMain = True,
      GetUTXOCoin = (\<lambda>outp. if outp = sample_outpoint
                      then Some \<lparr>out = \<lparr>nValue = 100000000000, scriptPubKey = [1]\<rparr>,
                                 Coin.nHeight = 50\<rparr>
                      else None),
      vChain = map sample_block [0..<101],
      mapBlockIndex = (\<lambda>h. if 1000 \<le> h \<and> h < 1101 then Some (Some (sample_block (h - 1000)))
                        else None),
      GetTransaction = (\<lambda>h. if h = 7
                         then Some (\<lparr>vout = [\<lparr>nValue = 100000000000, scriptPubKey = [1]\<rparr>]\<rparr>, 1050)
                         else None),
      GetScriptForDestination = (\<lambda>k. [k]),
      fMerchantNode = False,
      activeMerchantnode = \<lparr>outpoint = \<lparr>hash = 0, nOut = 0\<rparr>, pubKeyMerchantnode = 0\<rparr>,
      IsMerchantnodeListSynced = True,
      IsSynced = True,
      IsWatchdogActive = False,
      merchantnodeman_size = 10,
      VerifyMessage = (\<lambda>k sig msg. sig = [k]),
      addr_ToString = (\<lambda>a. []),
      vin_ToString = (\<lambda>i. []),
      KeyID_ToString = (\<lambda>k. []),
      uint256_ToString = (\<lambda>h. []),
      lexical_cast = (\<lambda>i. []),
      mnb_GetHash = (\<lambda>b. hash (prevout (vin b))),
      mnp_GetHash = (\<lambda>p. blockHash p),
      ManageState = (\<lambda>x. x)\<rparr>"

text \<open>A ping signed by the service key 2 at time 99000 over the block at height 88.\<close>

definition sample_ping :: CMerchantnodePing where
  "sample_ping =
     \<lparr>CMerchantnodePing.vin = \<lparr>prevout = sample_outpoint, scriptSig = [], nSequence = 4294967295\<rparr>,
      blockHash = 1088,
      CMerchantnodePing.sigTime = 99000,
      CMerchantnodePing.vchSig = [2]\<rparr>"

text \<open>An enabled record: announced at time 90000 by the collateral key 1.\<close>

definition sample_mn :: CMerchantnode where
  "sample_mn =
     \<lparr>nActiveState = MERCHANTNODE_ENABLED,
      nProtocolVersion = 70208,
      sigTime = 90000,
      vin = \<lparr>prevout = sample_outpoint, scriptSig = [], nSequence = 4294967295\<rparr>,
      addr = \<lparr>ip = 1, port = 9999\<rparr>,
      pubKeyCollateralAddress = 1,
      pubKeyMerchantnode = 2,
      nTimeLastWatchdogVote = 90000,
      nTimeLastChecked = 0,
      lastPing = sample_ping,
      vchSig = [1],
      nCollateralMinConfBlockHash = 1064,
      nBlockLastPaid = 0,
      nPoSeBanScore = 0,
      nPoSeBanHeight = 0,
      fUnitTest = False\<rparr>"

text \<open>
  An announcement for the same outpoint, signed by the collateral key 1 at the given time,
  from a new address, with an empty ping.
\<close>

definition sample_mnb :: "int \<Rightarrow> bool \<Rightarrow> CMerchantnodeBroadcast" where
  "sample_mnb t fRec =
     CMerchantnode.extend
       (sample_mn\<lparr>sigTime := t, addr := \<lparr>ip = 2, port = 9999\<rparr>,
                  lastPing := CMerchantnodePing_empty\<rparr>)
       (CMerchantnodeBroadcast.fields fRec)"

definition sample_shared :: shared where
  "sample_shared =
     \<lparr>mapSeenMerchantnodeBroadcast = Map.empty,
      mapSeenMerchantnodePing = Map.empty,
      vRelayInv = [],
      vBumpAssetLastTime = []\<rparr>"

section \<open>Properties\<close>

lemmas sample_defs =
  sample_env_def sample_mn_def sample_ping_def sample_outpoint_def sample_block_def
  sample_mnb_def sample_shared_def CTxIn_null_def CMerchantnodePing_empty_def
  CMerchantnode.extend_def CMerchantnodeBroadcast.fields_def

lemmas state_defs =
  IsEnabled_def IsPoSeBanned_def IsExpired_def IsOutpointSpent_def IsUpdateRequired_def
  IsWatchdogExpired_def IsNewStartRequired_def

lemmas Check_defs =
  Check_def Check_pose_def Check_lifecycle_def Check_enabled_def CheckCollateral1_def
  CheckCollateral_def IsPingedWithin_def chainActive_Height_def DecreasePoSeBanScore_def

subsection \<open>The spent record\<close>

lemma Check_spent_state:
  "nActiveState mn = MERCHANTNODE_OUTPOINT_SPENT \<Longrightarrow>
   nActiveState (Check e fForce mn) = MERCHANTNODE_OUTPOINT_SPENT"
  by (simp add: Check_def IsOutpointSpent_def Let_def)

lemma Check_spent_cases:
  "nActiveState mn = MERCHANTNODE_OUTPOINT_SPENT \<Longrightarrow>
   Check e fForce mn = mn \<or> Check e fForce mn = mn\<lparr>nTimeLastChecked := GetTime e\<rparr>"
  by (simp add: Check_def IsOutpointSpent_def Let_def)

lemma Checks_spent_state:
  "nActiveState mn = MERCHANTNODE_OUTPOINT_SPENT \<Longrightarrow>
   nActiveState (foldl (\<lambda>m (e, fForce). Check e fForce m) mn calls)
     = MERCHANTNODE_OUTPOINT_SPENT"
  by (induction calls arbitrary: mn) (auto simp: Check_spent_state)

text \<open>
  C1. A record in state OUTPOINT_SPENT is in that state after \<open>Check\<close>, whatever the force
  flag and the collaborators are, and after any sequence of such calls, each with its own
  collaborators. And when \<open>Check\<close> gets as far as the collateral verifier (no shutdown, forced
  or the re-check interval over, the record not spent yet, not in unit-test mode, the chain
  lock taken) and the verifier answers that the output is not found, the record becomes
  OUTPOINT_SPENT and nothing else but the time of the last check changes: the call stops
  there.
\<close>

theorem Check_outpoint_spent:
  "(nActiveState mn = MERCHANTNODE_OUTPOINT_SPENT \<longrightarrow>
      nActiveState (Check e fForce mn) = MERCHANTNODE_OUTPOINT_SPENT \<and>
      nActiveState (foldl (\<lambda>m (e', fForce'). Check e' fForce' m) mn calls)
        = MERCHANTNODE_OUTPOINT_SPENT) \<and>
   (\<not> ShutdownRequested e \<and>
    (fForce \<or> \<not> GetTime e - nTimeLastChecked mn < MERCHANTNODE_CHECK_SECONDS e) \<and>
    \<not> IsOutpointSpent mn \<and> \<not> fUnitTest mn \<and> lockMain e \<and>
    CheckCollateral1 e (prevout (vin mn)) = COLLATERAL_UTXO_NOT_FOUND \<longrightarrow>
      Check e fForce mn
        = mn\<lparr>nTimeLastChecked := GetTime e, nActiveState := MERCHANTNODE_OUTPOINT_SPENT\<rparr>)"
proof (intro conjI impI)
  assume "nActiveState mn = MERCHANTNODE_OUTPOINT_SPENT"
  then show "nActiveState (Check e fForce mn) = MERCHANTNODE_OUTPOINT_SPENT"
    by (rule Check_spent_state)
next
  assume "nActiveState mn = MERCHANTNODE_OUTPOINT_SPENT"
  then show "nActiveState (foldl (\<lambda>m (e', fForce'). Check e' fForce' m) mn calls)
        = MERCHANTNODE_OUTPOINT_SPENT"
    by (rule Checks_spent_state)
next
  assume "\<not> ShutdownRequested e \<and>
    (fForce \<or> \<not> GetTime e - nTimeLastChecked mn < MERCHANTNODE_CHECK_SECONDS e) \<and>
    \<not> IsOutpointSpent mn \<and> \<not> fUnitTest mn \<and> lockMain e \<and>
    CheckCollateral1 e (prevout (vin mn)) = COLLATERAL_UTXO_NOT_FOUND"
  then show "Check e fForce mn
        = mn\<lparr>nTimeLastChecked := GetTime e, nActiveState := MERCHANTNODE_OUTPOINT_SPENT\<rparr>"
    by (auto simp: Check_def IsOutpointSpent_def Let_def)
qed

text \<open>
  A spent record with a ban score at the maximum stays spent over a forced and an unforced
  call; an enabled record whose input names no output of the chain becomes spent.
\<close>

theorem Check_outpoint_spent_witness:
  "nActiveState (Check sample_env True
       (sample_mn\<lparr>nActiveState := MERCHANTNODE_OUTPOINT_SPENT, nPoSeBanScore := 5\<rparr>))
     = MERCHANTNODE_OUTPOINT_SPENT \<and>
   nActiveState (foldl (\<lambda>m (e', fForce'). Check e' fForce' m)
       (sample_mn\<lparr>nActiveState := MERCHANTNODE_OUTPOINT_SPENT, nPoSeBanScore := 5\<rparr>)
       [(sample_env, True), (sample_env\<lparr>GetTime := 100010\<rparr>, False)])
     = MERCHANTNODE_OUTPOINT_SPENT \<and>
   CheckCollateral1 sample_env (prevout (vin (sample_mn\<lparr>vin := CTxIn_null\<rparr>)))
     = COLLATERAL_UTXO_NOT_FOUND \<and>
   Check sample_env False (sample_mn\<lparr>vin := CTxIn_null\<rparr>)
     = sample_mn\<lparr>vin := CTxIn_null, nTimeLastChecked := 100000,
                  nActiveState := MERCHANTNODE_OUTPOINT_SPENT\<rparr>"
  using Check_outpoint_spent
          [of "sample_mn\<lparr>nActiveState := MERCHANTNODE_OUTPOINT_SPENT, nPoSeBanScore := 5\<rparr>"
              sample_env True "[(sample_env, True), (sample_env\<lparr>GetTime := 100010\<rparr>, False)]"]
        Check_outpoint_spent [of "sample_mn\<lparr>vin := CTxIn_null\<rparr>" sample_env False "[]"]
  by (simp add: sample_defs state_defs CheckCollateral1_def CheckCollateral_def)

subsection \<open>The collateral verifier\<close>

text \<open>
  C8. \<open>CheckCollateral\<close> answers COLLATERAL_UTXO_NOT_FOUND when the chain state has no
  unspent output for the outpoint, COLLATERAL_INVALID_AMOUNT when the output is there and
  its value is not 1000 coins, and otherwise COLLATERAL_OK with the height of the output
  written to the reference parameter (which the two failures leave as it was).
\<close>

theorem CheckCollateral_verdicts:
  "(GetUTXOCoin e outp = None \<longrightarrow>
      CheckCollateral e outp h0 = (COLLATERAL_UTXO_NOT_FOUND, h0)) \<and>
   (\<forall>coin. GetUTXOCoin e outp = Some coin \<and> nValue (out coin) \<noteq> 1000 * COIN e \<longrightarrow>
      CheckCollateral e outp h0 = (COLLATERAL_INVALID_AMOUNT, h0)) \<and>
   (\<forall>coin. GetUTXOCoin e outp = Some coin \<and> nValue (out coin) = 1000 * COIN e \<longrightarrow>
      CheckCollateral e outp h0 = (COLLATERAL_OK, Coin.nHeight coin))"
  by (simp add: CheckCollateral_def)

text \<open>
  The three verdicts on the sample chain: an unknown outpoint, the sample output under a
  collateral of 1000 units of 1, and the sample output of 1000 coins at height 50.
\<close>

theorem CheckCollateral_verdicts_witness:
  "CheckCollateral sample_env \<lparr>hash = 0, nOut = 0\<rparr> 3 = (COLLATERAL_UTXO_NOT_FOUND, 3) \<and>
   CheckCollateral (sample_env\<lparr>COIN := 1\<rparr>) sample_outpoint 3 = (COLLATERAL_INVALID_AMOUNT, 3) \<and>
   CheckCollateral sample_env sample_outpoint 3 = (COLLATERAL_OK, 50)"
  using CheckCollateral_verdicts [of sample_env "\<lparr>hash = 0, nOut = 0\<rparr>" 3]
        CheckCollateral_verdicts [of "sample_env\<lparr>COIN := 1\<rparr>" sample_outpoint 3]
        CheckCollateral_verdicts [of sample_env sample_outpoint 3]
  by (simp add: sample_defs)

subsection \<open>Signatures\<close>

text \<open>
  C9. When the verifier rejects the signature of an announcement, its \<open>CheckSignature\<close>
  returns false with the score 100; when it rejects the signature of a ping, the ping's
  \<open>CheckSignature\<close> returns false with the score 33.
\<close>

theorem CheckSignature_scores:
  "(\<not> VerifyMessage e (pubKeyCollateralAddress mnb) (vchSig mnb) (mnb_strMessage e mnb) \<longrightarrow>
      mnb_CheckSignature e mnb = (False, 100)) \<and>
   (\<not> VerifyMessage e pubKeyMasternode (CMerchantnodePing.vchSig mnp) (mnp_strMessage e mnp) \<longrightarrow>
      mnp_CheckSignature e mnp pubKeyMasternode = (False, 33))"
  by (simp add: mnb_CheckSignature_def mnp_CheckSignature_def)

text \<open>An announcement and a ping that carry the signature \<open>[9]\<close>, which no sample key makes.\<close>

theorem CheckSignature_scores_witness:
  "mnb_CheckSignature sample_env ((sample_mnb 99500 False)\<lparr>vchSig := [9]\<rparr>) = (False, 100) \<and>
   mnp_CheckSignature sample_env (sample_ping\<lparr>CMerchantnodePing.vchSig := [9]\<rparr>) 2 = (False, 33)"
  using CheckSignature_scores
          [of sample_env "(sample_mnb 99500 False)\<lparr>vchSig := [9]\<rparr>" 2
              "sample_ping\<lparr>CMerchantnodePing.vchSig := [9]\<rparr>"]
  by (simp add: sample_defs)

subsection \<open>Announcements against an existing record\<close>

text \<open>
  C3. An announcement whose \<open>sigTime\<close> is strictly less than the record's is rejected by
  \<open>Update\<close> with the score 0, and neither the record nor the shared state changes. Nothing
  is assumed about the signature or the recovery flag.
\<close>

theorem Update_older_sigTime:
  "sigTime mnb < sigTime mn \<Longrightarrow> Update e mnb mn sh = (False, 0, mn, sh)"
  by (simp add: Update_def)

text \<open>
  An announcement of time 80000 with the recovery flag and a forged signature, against the
  sample record of time 90000.
\<close>

theorem Update_older_sigTime_witness:
  "sigTime ((sample_mnb 80000 True)\<lparr>vchSig := [9]\<rparr>) < sigTime sample_mn \<and>
   Update sample_env ((sample_mnb 80000 True)\<lparr>vchSig := [9]\<rparr>) sample_mn sample_shared
     = (False, 0, sample_mn, sample_shared)"
  using Update_older_sigTime
          [of "(sample_mnb 80000 True)\<lparr>vchSig := [9]\<rparr>" sample_mn sample_env sample_shared]
  by (simp add: sample_defs)

subsection \<open>What \<open>Check\<close> and the ping leave alone\<close>

lemma Check_enabled_fields [simp]:
  "sigTime (Check_enabled e mn) = sigTime mn"
  "pubKeyCollateralAddress (Check_enabled e mn) = pubKeyCollateralAddress mn"
  "pubKeyMerchantnode (Check_enabled e mn) = pubKeyMerchantnode mn"
  "nProtocolVersion (Check_enabled e mn) = nProtocolVersion mn"
  by (simp_all add: Check_enabled_def)

lemma Check_lifecycle_fields [simp]:
  "sigTime (Check_lifecycle e mn) = sigTime mn"
  "pubKeyCollateralAddress (Check_lifecycle e mn) = pubKeyCollateralAddress mn"
  "pubKeyMerchantnode (Check_lifecycle e mn) = pubKeyMerchantnode mn"
  "nProtocolVersion (Check_lifecycle e mn) = nProtocolVersion mn"
  by (simp_all add: Check_lifecycle_def Let_def)

lemma DecreasePoSeBanScore_fields [simp]:
  "sigTime (DecreasePoSeBanScore e mn) = sigTime mn"
  "pubKeyCollateralAddress (DecreasePoSeBanScore e mn) = pubKeyCollateralAddress mn"
  "pubKeyMerchantnode (DecreasePoSeBanScore e mn) = pubKeyMerchantnode mn"
  "nProtocolVersion (DecreasePoSeBanScore e mn) = nProtocolVersion mn"
  by (simp_all add: DecreasePoSeBanScore_def)

lemma Check_pose_fields [simp]:
  "sigTime (Check_pose e h mn) = sigTime mn"
  "pubKeyCollateralAddress (Check_pose e h mn) = pubKeyCollateralAddress mn"
  "pubKeyMerchantnode (Check_pose e h mn) = pubKeyMerchantnode mn"
  "nProtocolVersion (Check_pose e h mn) = nProtocolVersion mn"
  by (simp_all add: Check_pose_def)

lemma Check_fields [simp]:
  "sigTime (Check e fForce mn) = sigTime mn"
  "pubKeyCollateralAddress (Check e fForce mn) = pubKeyCollateralAddress mn"
  "pubKeyMerchantnode (Check e fForce mn) = pubKeyMerchantnode mn"
  "nProtocolVersion (Check e fForce mn) = nProtocolVersion mn"
  by (simp_all add: Check_def Let_def)

lemma vRelayInv_patch_seen_mnb [simp]: "vRelayInv (patch_seen_mnb e mn mnp sh) = vRelayInv sh"
  by (simp add: patch_seen_mnb_def Let_def split: option.splits prod.splits)

lemma vRelayInv_BumpAssetLastTime [simp]: "vRelayInv (BumpAssetLastTime s sh) = vRelayInv sh"
  by (simp add: BumpAssetLastTime_def)

lemma vRelayInv_insert_seen_mnp [simp]: "vRelayInv (insert_seen_mnp e mnp sh) = vRelayInv sh"
  by (simp add: insert_seen_mnp_def split: option.splits)

lemma IsBroadcastedWithin_Check [simp]:
  "IsBroadcastedWithin e (Check e' fForce mn) s = IsBroadcastedWithin e mn s"
  by (simp add: IsBroadcastedWithin_def)

lemma vRelayInv_mnb_Relay:
  "vRelayInv (mnb_Relay e mnb sh)
     = (if IsSynced e then vRelayInv sh @ [(MSG_MERCHANTNODE_ANNOUNCE, mnb_GetHash e mnb)]
        else vRelayInv sh)"
  by (simp add: mnb_Relay_def)

subsection \<open>The PoSe ban\<close>

text \<open>
  C2, as the code has it. Take a call of \<open>Check\<close> that reaches the ban stage: no shutdown,
  forced or the re-check interval over, the record not spent, and either unit-test mode or
  the chain lock taken and the collateral found. Let the height be that of the active chain,
  or 0 in unit-test mode. If the record is not PoSe-banned and its score has reached the
  maximum, the call sets the state to POSE_BAN and the ban height to the height plus the
  network size, and changes nothing else but the time of the last check. If the record is
  PoSe-banned and the height is strictly below its ban height, the call changes nothing but
  the time of the last check.
\<close>

theorem Check_pose_ban:
  assumes "\<not> ShutdownRequested e"
    and "fForce \<or> \<not> GetTime e - nTimeLastChecked mn < MERCHANTNODE_CHECK_SECONDS e"
    and "\<not> IsOutpointSpent mn"
    and "fUnitTest mn \<or>
         lockMain e \<and> CheckCollateral1 e (prevout (vin mn)) \<noteq> COLLATERAL_UTXO_NOT_FOUND"
  shows "(\<not> IsPoSeBanned mn \<and> MERCHANTNODE_POSE_BAN_MAX_SCORE e \<le> nPoSeBanScore mn \<longrightarrow>
            Check e fForce mn
              = mn\<lparr>nTimeLastChecked := GetTime e,
                    nActiveState := MERCHANTNODE_POSE_BAN,
                    nPoSeBanHeight := (if fUnitTest mn then 0 else chainActive_Height e)
                                        + merchantnodeman_size e\<rparr>) \<and>
         (IsPoSeBanned mn \<and> (if fUnitTest mn then 0 else chainActive_Height e) < nPoSeBanHeight mn \<longrightarrow>
            Check e fForce mn = mn\<lparr>nTimeLastChecked := GetTime e\<rparr>)"
  using assms
  by (auto simp: Check_def Check_pose_def Let_def state_defs)

text \<open>
  On the sample chain (height 100, network size 10): a record with score 5 is banned until
  height 110; a record banned until height 200 stays as it is.
\<close>

theorem Check_pose_ban_witness:
  "Check sample_env False (sample_mn\<lparr>nPoSeBanScore := 5\<rparr>)
     = sample_mn\<lparr>nPoSeBanScore := 5, nTimeLastChecked := 100000,
                  nActiveState := MERCHANTNODE_POSE_BAN, nPoSeBanHeight := 110\<rparr> \<and>
   Check sample_env False
       (sample_mn\<lparr>nActiveState := MERCHANTNODE_POSE_BAN, nPoSeBanHeight := 200\<rparr>)
     = sample_mn\<lparr>nActiveState := MERCHANTNODE_POSE_BAN, nPoSeBanHeight := 200,
                  nTimeLastChecked := 100000\<rparr>"
  using Check_pose_ban [of sample_env False "sample_mn\<lparr>nPoSeBanScore := 5\<rparr>"]
        Check_pose_ban [of sample_env False
          "sample_mn\<lparr>nActiveState := MERCHANTNODE_POSE_BAN, nPoSeBanHeight := 200\<rparr>"]
  by (simp add: sample_defs state_defs CheckCollateral1_def CheckCollateral_def
        chainActive_Height_def)

text \<open>
  The claim as stated fails on a spent record: it is not PoSe-banned, its score is at the
  maximum, and a forced \<open>Check\<close> does not make it POSE_BAN.
\<close>

theorem Check_pose_ban_counterexample:
  "\<not> IsPoSeBanned (sample_mn\<lparr>nActiveState := MERCHANTNODE_OUTPOINT_SPENT, nPoSeBanScore := 5\<rparr>) \<and>
   MERCHANTNODE_POSE_BAN_MAX_SCORE sample_env
     \<le> nPoSeBanScore (sample_mn\<lparr>nActiveState := MERCHANTNODE_OUTPOINT_SPENT, nPoSeBanScore := 5\<rparr>) \<and>
   nActiveState (Check sample_env True
       (sample_mn\<lparr>nActiveState := MERCHANTNODE_OUTPOINT_SPENT, nPoSeBanScore := 5\<rparr>))
     \<noteq> MERCHANTNODE_POSE_BAN"
  by (simp add: sample_defs state_defs Check_def Let_def)

subsection \<open>Pings\<close>

text \<open>
  C5. A ping whose block hash resolves to a block with a height more than 24 below the height
  of the active chain is refused by \<open>CheckAndUpdate\<close>: the call returns false, with the score
  1 when the ping's time is more than an hour ahead and 0 otherwise, and leaves the record
  (so its last ping) and the shared state as they were.
\<close>

theorem CheckAndUpdate_old_block:
  assumes "mapBlockIndex e (blockHash mnp) = Some (Some pindex)"
    and "CBlockIndex.nHeight pindex < chainActive_Height e - 24"
  shows "CheckAndUpdate e mnp pmn fFromNewBroadcast sh
           = (False, if GetAdjustedTime e + 60 * 60 < CMerchantnodePing.sigTime mnp then 1 else 0,
              pmn, sh)"
  using assms
  by (simp add: CheckAndUpdate_def mnp_SimpleCheck_def CheckAndUpdate_found_def
           split: option.splits)

text \<open>A ping over the block at height 75, with the tip at 100.\<close>

theorem CheckAndUpdate_old_block_witness:
  "mapBlockIndex sample_env (blockHash (sample_ping\<lparr>blockHash := 1075, CMerchantnodePing.sigTime := 99900\<rparr>))
     = Some (Some (sample_block 75)) \<and>
   CBlockIndex.nHeight (sample_block 75) < chainActive_Height sample_env - 24 \<and>
   CheckAndUpdate sample_env (sample_ping\<lparr>blockHash := 1075, CMerchantnodePing.sigTime := 99900\<rparr>)
       (Some sample_mn) False sample_shared
     = (False, 0, Some sample_mn, sample_shared)"
  using CheckAndUpdate_old_block
          [of sample_env "sample_ping\<lparr>blockHash := 1075, CMerchantnodePing.sigTime := 99900\<rparr>"
              "sample_block 75" "Some sample_mn" False sample_shared]
  by (simp add: sample_defs chainActive_Height_def)

lemma CheckAndUpdate_found_relay:
  assumes "CheckAndUpdate_found e mnp mn fFromNewBroadcast sh = (fRelay, nDos, mn', sh')"
  shows "(fRelay \<longrightarrow>
            mn' = Check e True (mn\<lparr>lastPing := mnp\<rparr>) \<and>
            nActiveState mn' \<in> {MERCHANTNODE_ENABLED, MERCHANTNODE_EXPIRED, MERCHANTNODE_WATCHDOG_EXPIRED} \<and>
            vRelayInv sh' = (if IsSynced e then vRelayInv sh @ [(MSG_MERCHANTNODE_PING, mnp_GetHash e mnp)]
                             else vRelayInv sh)) \<and>
         (\<not> fRelay \<longrightarrow> vRelayInv sh' = vRelayInv sh)"
  using assms
  by (auto simp: CheckAndUpdate_found_def Let_def state_defs mnp_Relay_def
           split: if_splits prod.splits bool.splits)

text \<open>
  C6. When \<open>CheckAndUpdate\<close> returns true there is a target record, the record it leaves is
  the result of the forced \<open>Check\<close> on the record with the ping stored as its last ping, and
  the state of that record is ENABLED, EXPIRED or WATCHDOG_EXPIRED; the ping's inventory is
  then handed to the relay when the node is synced. When it returns false nothing is handed
  to the relay.
\<close>

theorem CheckAndUpdate_relay:
  assumes "CheckAndUpdate e mnp pmn fFromNewBroadcast sh = (fRelay, nDos, pmn', sh')"
  shows "(fRelay \<longrightarrow>
            (\<exists>mn. pmn = Some mn \<and> pmn' = Some (Check e True (mn\<lparr>lastPing := mnp\<rparr>)) \<and>
               nActiveState (Check e True (mn\<lparr>lastPing := mnp\<rparr>))
                 \<in> {MERCHANTNODE_ENABLED, MERCHANTNODE_EXPIRED, MERCHANTNODE_WATCHDOG_EXPIRED}) \<and>
            vRelayInv sh' = (if IsSynced e then vRelayInv sh @ [(MSG_MERCHANTNODE_PING, mnp_GetHash e mnp)]
                             else vRelayInv sh)) \<and>
         (\<not> fRelay \<longrightarrow> vRelayInv sh' = vRelayInv sh)"
proof (cases "mnp_SimpleCheck e mnp")
  case (Pair ok d)
  show ?thesis
  proof (cases ok)
    case False
    with Pair assms show ?thesis by (simp add: CheckAndUpdate_def)
  next
    case True
    note ok = this
    show ?thesis
    proof (cases pmn)
      case None
      with Pair ok assms show ?thesis by (simp add: CheckAndUpdate_def)
    next
      case (Some mn)
      obtain r d' m s where found: "CheckAndUpdate_found e mnp mn fFromNewBroadcast sh = (r, d', m, s)"
        by (cases "CheckAndUpdate_found e mnp mn fFromNewBroadcast sh") auto
      with Pair ok Some assms have eqs: "fRelay = r" "pmn' = Some m" "sh' = s"
        by (simp_all add: CheckAndUpdate_def)
      from CheckAndUpdate_found_relay [OF found] Some eqs show ?thesis by auto
    qed
  qed
qed

text \<open>
  A fresh ping for the enabled sample record is relayed; the same ping for a spent record is
  stored but not relayed.
\<close>

theorem CheckAndUpdate_relay_witness:
  "CheckAndUpdate sample_env (sample_ping\<lparr>CMerchantnodePing.sigTime := 99900\<rparr>)
       (Some sample_mn) False sample_shared
     = (True, 0,
        Some (sample_mn\<lparr>lastPing := sample_ping\<lparr>CMerchantnodePing.sigTime := 99900\<rparr>,
                        nTimeLastChecked := 100000\<rparr>),
        sample_shared\<lparr>vRelayInv := [(MSG_MERCHANTNODE_PING, 1088)]\<rparr>) \<and>
   nActiveState (Check sample_env True
       (sample_mn\<lparr>lastPing := sample_ping\<lparr>CMerchantnodePing.sigTime := 99900\<rparr>\<rparr>))
     = MERCHANTNODE_ENABLED \<and>
   CheckAndUpdate sample_env (sample_ping\<lparr>CMerchantnodePing.sigTime := 99900\<rparr>)
       (Some (sample_mn\<lparr>nActiveState := MERCHANTNODE_OUTPOINT_SPENT\<rparr>)) False sample_shared
     = (False, 0,
        Some (sample_mn\<lparr>nActiveState := MERCHANTNODE_OUTPOINT_SPENT,
                        lastPing := sample_ping\<lparr>CMerchantnodePing.sigTime := 99900\<rparr>,
                        nTimeLastChecked := 100000\<rparr>),
        sample_shared)"
  using CheckAndUpdate_relay
          [of sample_env "sample_ping\<lparr>CMerchantnodePing.sigTime := 99900\<rparr>"
              "Some sample_mn" False sample_shared True 0
              "Some (sample_mn\<lparr>lastPing := sample_ping\<lparr>CMerchantnodePing.sigTime := 99900\<rparr>,
                              nTimeLastChecked := 100000\<rparr>)"
              "sample_shared\<lparr>vRelayInv := [(MSG_MERCHANTNODE_PING, 1088)]\<rparr>"]
        CheckAndUpdate_relay
          [of sample_env "sample_ping\<lparr>CMerchantnodePing.sigTime := 99900\<rparr>"
              "Some (sample_mn\<lparr>nActiveState := MERCHANTNODE_OUTPOINT_SPENT\<rparr>)" False
              sample_shared False 0
              "Some (sample_mn\<lparr>nActiveState := MERCHANTNODE_OUTPOINT_SPENT,
                              lastPing := sample_ping\<lparr>CMerchantnodePing.sigTime := 99900\<rparr>,
                              nTimeLastChecked := 100000\<rparr>)"
              sample_shared]
  by (simp add: sample_defs state_defs Check_defs CheckAndUpdate_def CheckAndUpdate_found_def
        mnp_SimpleCheck_def mnp_CheckSignature_def Let_def patch_seen_mnb_def mnp_Relay_def)

subsection \<open>The collateral of an announcement\<close>

text \<open>
  C7. Take a call of \<open>CheckOutpoint\<close> that gets to resolve the collateral: the announcement
  is not the node's own, its signature verifies and the chain lock is taken. When the
  collateral resolves to COLLATERAL_OK at a height whose confirmation depth (height of the
  chain minus that height plus 1) is below the minimum, the call returns false and erases
  the announcement's hash from the seen-announcement map. When the verifier answers
  COLLATERAL_UTXO_NOT_FOUND or COLLATERAL_INVALID_AMOUNT, the call returns false and leaves
  the shared state, so that map, as it was.
\<close>

theorem CheckOutpoint_collateral:
  assumes "\<not> (fMerchantNode e \<and> prevout (vin mnb) = outpoint (activeMerchantnode e) \<and>
              pubKeyMerchantnode mnb = CActiveMerchantnode.pubKeyMerchantnode (activeMerchantnode e))"
    and "VerifyMessage e (pubKeyCollateralAddress mnb) (vchSig mnb) (mnb_strMessage e mnb)"
    and "lockMain e"
  shows "(\<forall>height. CheckCollateral e (prevout (vin mnb)) 0 = (COLLATERAL_OK, height) \<and>
            chainActive_Height e - height + 1 < nMasternodeMinimumConfirmations e \<longrightarrow>
            CheckOutpoint e mnb nDos0 sh = Inr (False, 0, mnb, erase_seen_mnb e mnb sh) \<and>
            mapSeenMerchantnodeBroadcast (erase_seen_mnb e mnb sh) (mnb_GetHash e mnb) = None) \<and>
         (fst (CheckCollateral e (prevout (vin mnb)) 0)
            \<in> {COLLATERAL_UTXO_NOT_FOUND, COLLATERAL_INVALID_AMOUNT} \<longrightarrow>
            CheckOutpoint e mnb nDos0 sh = Inr (False, 0, mnb, sh))"
  using assms
  by (auto simp: CheckOutpoint_def mnb_CheckSignature_def erase_seen_mnb_def split: prod.splits)

text \<open>
  The sample announcement is in the seen map under its hash 7. With 60 confirmations
  required its collateral (51 deep) is too young and the entry goes; under a collateral of
  1000 units of 1 the amount is wrong and the entry stays; an announcement for the null
  outpoint finds no output and the map stays as well.
\<close>

theorem CheckOutpoint_collateral_witness:
  "CheckOutpoint (sample_env\<lparr>nMasternodeMinimumConfirmations := 60\<rparr>) (sample_mnb 99500 False) 0
       (sample_shared\<lparr>mapSeenMerchantnodeBroadcast := [7 \<mapsto> (99600, sample_mnb 99500 False)]\<rparr>)
     = Inr (False, 0, sample_mnb 99500 False,
            erase_seen_mnb (sample_env\<lparr>nMasternodeMinimumConfirmations := 60\<rparr>)
              (sample_mnb 99500 False)
              (sample_shared\<lparr>mapSeenMerchantnodeBroadcast :=
                               [7 \<mapsto> (99600, sample_mnb 99500 False)]\<rparr>)) \<and>
   mapSeenMerchantnodeBroadcast
     (erase_seen_mnb (sample_env\<lparr>nMasternodeMinimumConfirmations := 60\<rparr>)
        (sample_mnb 99500 False)
        (sample_shared\<lparr>mapSeenMerchantnodeBroadcast :=
                         [7 \<mapsto> (99600, sample_mnb 99500 False)]\<rparr>)) 7 = None \<and>
   CheckOutpoint (sample_env\<lparr>COIN := 1\<rparr>) (sample_mnb 99500 False) 0
       (sample_shared\<lparr>mapSeenMerchantnodeBroadcast := [7 \<mapsto> (99600, sample_mnb 99500 False)]\<rparr>)
     = Inr (False, 0, sample_mnb 99500 False,
            sample_shared\<lparr>mapSeenMerchantnodeBroadcast :=
                             [7 \<mapsto> (99600, sample_mnb 99500 False)]\<rparr>) \<and>
   CheckOutpoint sample_env ((sample_mnb 99500 False)\<lparr>vin := CTxIn_null\<rparr>) 0
       (sample_shared\<lparr>mapSeenMerchantnodeBroadcast :=
                        [0 \<mapsto> (99600, (sample_mnb 99500 False)\<lparr>vin := CTxIn_null\<rparr>)]\<rparr>)
     = Inr (False, 0, (sample_mnb 99500 False)\<lparr>vin := CTxIn_null\<rparr>,
            sample_shared\<lparr>mapSeenMerchantnodeBroadcast :=
                             [0 \<mapsto> (99600, (sample_mnb 99500 False)\<lparr>vin := CTxIn_null\<rparr>)]\<rparr>)"
  using CheckOutpoint_collateral
          [of "sample_env\<lparr>nMasternodeMinimumConfirmations := 60\<rparr>" "sample_mnb 99500 False" 0
              "sample_shared\<lparr>mapSeenMerchantnodeBroadcast :=
                               [7 \<mapsto> (99600, sample_mnb 99500 False)]\<rparr>"]
        CheckOutpoint_collateral
          [of "sample_env\<lparr>COIN := 1\<rparr>" "sample_mnb 99500 False" 0
              "sample_shared\<lparr>mapSeenMerchantnodeBroadcast :=
                               [7 \<mapsto> (99600, sample_mnb 99500 False)]\<rparr>"]
        CheckOutpoint_collateral
          [of sample_env "(sample_mnb 99500 False)\<lparr>vin := CTxIn_null\<rparr>" 0
              "sample_shared\<lparr>mapSeenMerchantnodeBroadcast :=
                               [0 \<mapsto> (99600, (sample_mnb 99500 False)\<lparr>vin := CTxIn_null\<rparr>)]\<rparr>"]
  by (simp add: sample_defs CheckCollateral_def chainActive_Height_def)

subsection \<open>Announcements with an equal or newer time\<close>

lemma CheckAndUpdate_found_fields:
  "CheckAndUpdate_found e mnp mn f sh = (r, d, mn', sh') \<Longrightarrow>
   pubKeyMerchantnode mn' = pubKeyMerchantnode mn \<and> nProtocolVersion mn' = nProtocolVersion mn"
  by (auto simp: CheckAndUpdate_found_def Let_def split: if_splits prod.splits bool.splits)

lemma CheckAndUpdate_Some:
  assumes "CheckAndUpdate e mnp (Some mn) f sh = (r, d, pm, sh')"
  shows "(pm = Some mn \<and> \<not> r \<and> sh' = sh) \<or>
         (\<exists>mn'. pm = Some mn' \<and> CheckAndUpdate_found e mnp mn f sh = (r, d, mn', sh'))"
proof (cases "mnp_SimpleCheck e mnp")
  case (Pair ok d0)
  obtain r1 d1 m1 s1 where found: "CheckAndUpdate_found e mnp mn f sh = (r1, d1, m1, s1)"
    by (cases "CheckAndUpdate_found e mnp mn f sh") auto
  show ?thesis
  proof (cases ok)
    case True
    with Pair found assms show ?thesis by (simp add: CheckAndUpdate_def)
  next
    case False
    with Pair assms show ?thesis by (simp add: CheckAndUpdate_def)
  qed
qed

lemma apply_mnb_ping_fields:
  assumes "apply_mnb_ping e mn mnb sh = (mn', sh')"
  shows "pubKeyMerchantnode mn' = pubKeyMerchantnode mn \<and> nProtocolVersion mn' = nProtocolVersion mn"
proof (cases "lastPing mnb = CMerchantnodePing_empty")
  case True
  with assms show ?thesis by (auto simp: apply_mnb_ping_def)
next
  case False
  obtain r d pm s where cu: "CheckAndUpdate e (lastPing mnb) (Some mn) True sh = (r, d, pm, s)"
    by (cases "CheckAndUpdate e (lastPing mnb) (Some mn) True sh") auto
  from CheckAndUpdate_Some [OF cu] show ?thesis
  proof
    assume "pm = Some mn \<and> \<not> r \<and> s = sh"
    with False cu assms show ?thesis by (simp add: apply_mnb_ping_def)
  next
    assume "\<exists>m. pm = Some m \<and> CheckAndUpdate_found e (lastPing mnb) mn True sh = (r, d, m, s)"
    then obtain m where m: "pm = Some m"
      and found: "CheckAndUpdate_found e (lastPing mnb) mn True sh = (r, d, m, s)" by blast
    from CheckAndUpdate_found_fields [OF found] False cu m assms show ?thesis
      by (cases r) (auto simp: apply_mnb_ping_def)
  qed
qed

lemma UpdateFromNewBroadcast_gate:
  assumes "fRecovery mnb \<or> sigTime mn < sigTime mnb"
  shows "fst (UpdateFromNewBroadcast e mn mnb sh)
     = (\<not> (fMerchantNode e \<and>
            pubKeyMerchantnode mnb = CActiveMerchantnode.pubKeyMerchantnode (activeMerchantnode e) \<and>
            nProtocolVersion mnb \<noteq> PROTOCOL_VERSION e))"
proof -
  let ?mn1 = "mn\<lparr>pubKeyMerchantnode := pubKeyMerchantnode mnb,
                     sigTime := sigTime mnb,
                     vchSig := vchSig mnb,
                     nProtocolVersion := nProtocolVersion mnb,
                     addr := addr mnb,
                     nPoSeBanScore := 0,
                     nPoSeBanHeight := 0,
                     nTimeLastChecked := 0\<rparr>"
  obtain mn2 sh2 where ap: "apply_mnb_ping e ?mn1 mnb sh = (mn2, sh2)"
    by (cases "apply_mnb_ping e ?mn1 mnb sh") auto
  from apply_mnb_ping_fields [OF ap]
  have f: "pubKeyMerchantnode mn2 = pubKeyMerchantnode mnb" "nProtocolVersion mn2 = nProtocolVersion mnb"
    by simp_all
  from assms have gate: "\<not> (sigTime mnb \<le> sigTime mn \<and> \<not> fRecovery mnb)" by auto
  show ?thesis
    unfolding UpdateFromNewBroadcast_def
    using gate ap f by (auto simp: Let_def split: prod.splits)
qed

lemma Update_accepts:
  assumes "sigTime mn < sigTime mnb \<or> sigTime mn = sigTime mnb \<and> fRecovery mnb"
  shows "fst (Update e mnb mn sh)
           = (\<not> IsPoSeBanned (Check e False mn) \<and>
              pubKeyCollateralAddress mn = pubKeyCollateralAddress mnb \<and>
              VerifyMessage e (pubKeyCollateralAddress mnb) (vchSig mnb) (mnb_strMessage e mnb))"
  using assms
  by (auto simp: Update_def Let_def mnb_CheckSignature_def
           split: prod.splits bool.splits)

text \<open>
  C4, as the code has it. For an announcement whose \<open>sigTime\<close> equals the record's: without
  the recovery flag \<open>Update\<close> returns false with the score 0 and changes neither the record
  nor the shared state. With the recovery flag the announcement is not refused for its time:
  \<open>Update\<close> returns true exactly when the record is not PoSe-banned after its \<open>Check\<close>, the
  collateral key is the record's and the signature verifies; and \<open>UpdateFromNewBroadcast\<close> on
  the checked record passes its own time test, returning false only for the node's own
  identity under another protocol version.
\<close>

theorem Update_equal_sigTime:
  assumes "sigTime mnb = sigTime mn"
  shows "(\<not> fRecovery mnb \<longrightarrow> Update e mnb mn sh = (False, 0, mn, sh)) \<and>
         (fRecovery mnb \<longrightarrow>
            fst (Update e mnb mn sh)
              = (\<not> IsPoSeBanned (Check e False mn) \<and>
                 pubKeyCollateralAddress mn = pubKeyCollateralAddress mnb \<and>
                 VerifyMessage e (pubKeyCollateralAddress mnb) (vchSig mnb) (mnb_strMessage e mnb)) \<and>
            fst (UpdateFromNewBroadcast e (Check e False mn) mnb sh)
              = (\<not> (fMerchantNode e \<and>
                     pubKeyMerchantnode mnb
                       = CActiveMerchantnode.pubKeyMerchantnode (activeMerchantnode e) \<and>
                     nProtocolVersion mnb \<noteq> PROTOCOL_VERSION e)))"
proof (intro conjI impI)
  assume "\<not> fRecovery mnb"
  with assms show "Update e mnb mn sh = (False, 0, mn, sh)" by (simp add: Update_def)
next
  assume "fRecovery mnb"
  with assms show "fst (Update e mnb mn sh)
              = (\<not> IsPoSeBanned (Check e False mn) \<and>
                 pubKeyCollateralAddress mn = pubKeyCollateralAddress mnb \<and>
                 VerifyMessage e (pubKeyCollateralAddress mnb) (vchSig mnb) (mnb_strMessage e mnb))"
    by (intro Update_accepts) simp
next
  assume "fRecovery mnb"
  then show "fst (UpdateFromNewBroadcast e (Check e False mn) mnb sh)
              = (\<not> (fMerchantNode e \<and>
                     pubKeyMerchantnode mnb
                       = CActiveMerchantnode.pubKeyMerchantnode (activeMerchantnode e) \<and>
                     nProtocolVersion mnb \<noteq> PROTOCOL_VERSION e))"
    by (intro UpdateFromNewBroadcast_gate) simp
qed

text \<open>
  The sample record and two announcements of its own time 90000: without the recovery flag
  nothing happens, with it the announcement is accepted.
\<close>

theorem Update_equal_sigTime_witness:
  "sigTime (sample_mnb 90000 False) = sigTime sample_mn \<and>
   Update sample_env (sample_mnb 90000 False) sample_mn sample_shared
     = (False, 0, sample_mn, sample_shared) \<and>
   fst (Update sample_env (sample_mnb 90000 True) sample_mn sample_shared) \<and>
   fst (UpdateFromNewBroadcast sample_env (Check sample_env False sample_mn)
          (sample_mnb 90000 True) sample_shared)"
  using Update_equal_sigTime [of "sample_mnb 90000 False" sample_mn sample_env sample_shared]
        Update_equal_sigTime [of "sample_mnb 90000 True" sample_mn sample_env sample_shared]
  by (simp add: sample_defs state_defs Check_defs Let_def)

text \<open>
  The claim as stated fails on a PoSe-banned record (banned until height 200, the chain at
  100): an announcement of equal time with the recovery flag, the right key and a good
  signature is rejected.
\<close>

theorem Update_equal_sigTime_counterexample:
  "sigTime (sample_mnb 90000 True)
     = sigTime (sample_mn\<lparr>nActiveState := MERCHANTNODE_POSE_BAN, nPoSeBanHeight := 200\<rparr>) \<and>
   fRecovery (sample_mnb 90000 True) \<and>
   VerifyMessage sample_env (pubKeyCollateralAddress (sample_mnb 90000 True))
     (vchSig (sample_mnb 90000 True)) (mnb_strMessage sample_env (sample_mnb 90000 True)) \<and>
   Update sample_env (sample_mnb 90000 True)
       (sample_mn\<lparr>nActiveState := MERCHANTNODE_POSE_BAN, nPoSeBanHeight := 200\<rparr>) sample_shared
     = (False, 0,
        sample_mn\<lparr>nActiveState := MERCHANTNODE_POSE_BAN, nPoSeBanHeight := 200,
                  nTimeLastChecked := 100000\<rparr>,
        sample_shared)"
  by (simp add: sample_defs state_defs Update_def Check_def Check_pose_def CheckCollateral1_def
        CheckCollateral_def chainActive_Height_def Let_def)

subsection \<open>Announcements for a spent record\<close>

lemma CheckAndUpdate_found_record:
  "CheckAndUpdate_found e mnp mn f sh = (r, d, mn', sh') \<Longrightarrow>
   mn' = mn \<or> mn' = Check e True (mn\<lparr>lastPing := mnp\<rparr>)"
  by (auto simp: CheckAndUpdate_found_def Let_def split: if_splits prod.splits bool.splits)

lemma CheckAndUpdate_found_spent:
  assumes spent: "nActiveState mn = MERCHANTNODE_OUTPOINT_SPENT"
    and found: "CheckAndUpdate_found e mnp mn f sh = (r, d, mn', sh')"
  shows "\<not> r \<and> (\<exists>t p. mn' = mn\<lparr>lastPing := p, nTimeLastChecked := t\<rparr>) \<and>
         vRelayInv sh' = vRelayInv sh"
proof -
  from spent have sp: "nActiveState (mn\<lparr>lastPing := mnp\<rparr>) = MERCHANTNODE_OUTPOINT_SPENT"
    by simp
  have st: "nActiveState (Check e True (mn\<lparr>lastPing := mnp\<rparr>)) = MERCHANTNODE_OUTPOINT_SPENT"
    using sp by (rule Check_spent_state)
  from CheckAndUpdate_found_relay [OF found] st have nr: "\<not> r" by auto
  with CheckAndUpdate_found_relay [OF found] have rel: "vRelayInv sh' = vRelayInv sh" by simp
  from CheckAndUpdate_found_record [OF found]
  have "\<exists>t p. mn' = mn\<lparr>lastPing := p, nTimeLastChecked := t\<rparr>"
  proof
    assume "mn' = mn"
    then have "mn' = mn\<lparr>lastPing := lastPing mn, nTimeLastChecked := nTimeLastChecked mn\<rparr>"
      by simp
    then show ?thesis by blast
  next
    assume c: "mn' = Check e True (mn\<lparr>lastPing := mnp\<rparr>)"
    from Check_spent_cases [OF sp, of e True] show ?thesis
    proof
      assume "Check e True (mn\<lparr>lastPing := mnp\<rparr>) = mn\<lparr>lastPing := mnp\<rparr>"
      with c have "mn' = mn\<lparr>lastPing := mnp, nTimeLastChecked := nTimeLastChecked mn\<rparr>"
        by simp
      then show ?thesis by blast
    next
      assume "Check e True (mn\<lparr>lastPing := mnp\<rparr>)
                = mn\<lparr>lastPing := mnp, nTimeLastChecked := GetTime e\<rparr>"
      with c have "mn' = mn\<lparr>lastPing := mnp, nTimeLastChecked := GetTime e\<rparr>"
        by simp
      then show ?thesis by blast
    qed
  qed
  with nr rel show ?thesis by simp
qed

lemma apply_mnb_ping_spent:
  assumes spent: "nActiveState mn = MERCHANTNODE_OUTPOINT_SPENT"
    and ap: "apply_mnb_ping e mn mnb sh = (mn', sh')"
  shows "(\<exists>t p. mn' = mn\<lparr>lastPing := p, nTimeLastChecked := t\<rparr>) \<and>
         vRelayInv sh' = vRelayInv sh"
proof (cases "lastPing mnb = CMerchantnodePing_empty")
  case True
  with ap have "mn' = mn\<lparr>lastPing := lastPing mnb, nTimeLastChecked := nTimeLastChecked mn\<rparr>"
    and "vRelayInv sh' = vRelayInv sh"
    by (auto simp: apply_mnb_ping_def)
  then show ?thesis by blast
next
  case False
  obtain r d pm s where cu: "CheckAndUpdate e (lastPing mnb) (Some mn) True sh = (r, d, pm, s)"
    by (cases "CheckAndUpdate e (lastPing mnb) (Some mn) True sh") auto
  from CheckAndUpdate_Some [OF cu] show ?thesis
  proof
    assume "pm = Some mn \<and> \<not> r \<and> s = sh"
    with False cu ap
    have "mn' = mn\<lparr>lastPing := lastPing mn, nTimeLastChecked := nTimeLastChecked mn\<rparr>"
      and "vRelayInv sh' = vRelayInv sh"
      by (auto simp: apply_mnb_ping_def)
    then show ?thesis by blast
  next
    assume "\<exists>m. pm = Some m \<and> CheckAndUpdate_found e (lastPing mnb) mn True sh = (r, d, m, s)"
    then obtain m where m: "pm = Some m"
      and found: "CheckAndUpdate_found e (lastPing mnb) mn True sh = (r, d, m, s)" by blast
    from CheckAndUpdate_found_spent [OF spent found]
    have nr: "\<not> r" and fr: "\<exists>t p. m = mn\<lparr>lastPing := p, nTimeLastChecked := t\<rparr>"
      and rel: "vRelayInv s = vRelayInv sh" by simp_all
    from False cu m nr ap have "mn' = m" "sh' = s" by (auto simp: apply_mnb_ping_def)
    with fr rel show ?thesis by simp
  qed
qed

lemma UpdateFromNewBroadcast_spent:
  assumes spent: "nActiveState mn = MERCHANTNODE_OUTPOINT_SPENT"
    and gate: "fRecovery mnb \<or> sigTime mn < sigTime mnb"
    and other: "\<not> (fMerchantNode e \<and>
                    pubKeyMerchantnode mnb
                      = CActiveMerchantnode.pubKeyMerchantnode (activeMerchantnode e))"
  shows "\<exists>t p sh'.
           UpdateFromNewBroadcast e mn mnb sh
             = (True,
                mn\<lparr>pubKeyMerchantnode := pubKeyMerchantnode mnb,
                    sigTime := sigTime mnb,
                    vchSig := vchSig mnb,
                    nProtocolVersion := nProtocolVersion mnb,
                    addr := addr mnb,
                    nPoSeBanScore := 0,
                    nPoSeBanHeight := 0,
                    lastPing := p,
                    nTimeLastChecked := t\<rparr>, sh') \<and>
           vRelayInv sh' = vRelayInv sh"
proof -
  let ?mn1 = "mn\<lparr>pubKeyMerchantnode := pubKeyMerchantnode mnb,
                     sigTime := sigTime mnb,
                     vchSig := vchSig mnb,
                     nProtocolVersion := nProtocolVersion mnb,
                     addr := addr mnb,
                     nPoSeBanScore := 0,
                     nPoSeBanHeight := 0,
                     nTimeLastChecked := 0\<rparr>"
  obtain mn2 sh2 where ap: "apply_mnb_ping e ?mn1 mnb sh = (mn2, sh2)"
    by (cases "apply_mnb_ping e ?mn1 mnb sh") auto
  from spent have sp1: "nActiveState ?mn1 = MERCHANTNODE_OUTPOINT_SPENT" by simp
  from apply_mnb_ping_spent [OF sp1 ap]
  obtain t p where mn2: "mn2 = ?mn1\<lparr>lastPing := p, nTimeLastChecked := t\<rparr>"
    and rel: "vRelayInv sh2 = vRelayInv sh" by blast
  from gate have g: "\<not> (sigTime mnb \<le> sigTime mn \<and> \<not> fRecovery mnb)" by auto
  from mn2 have pk: "pubKeyMerchantnode mn2 = pubKeyMerchantnode mnb" by simp
  have "UpdateFromNewBroadcast e mn mnb sh = (True, mn2, sh2)"
    unfolding UpdateFromNewBroadcast_def using g ap pk other by (auto simp: Let_def)
  with mn2
  have "UpdateFromNewBroadcast e mn mnb sh
          = (True,
             mn\<lparr>pubKeyMerchantnode := pubKeyMerchantnode mnb,
                 sigTime := sigTime mnb,
                 vchSig := vchSig mnb,
                 nProtocolVersion := nProtocolVersion mnb,
                 addr := addr mnb,
                 nPoSeBanScore := 0,
                 nPoSeBanHeight := 0,
                 lastPing := p,
                 nTimeLastChecked := t\<rparr>, sh2)"
    by simp
  with rel show ?thesis by blast
qed

text \<open>
  C10, as the code has it. For an announcement with a strictly newer \<open>sigTime\<close>, the record's
  collateral key and a good signature, \<open>Update\<close> returns true exactly when the record is not
  PoSe-banned after its \<open>Check\<close>: no other state is refused. On a record in state
  OUTPOINT_SPENT it returns true with the score 0. When the announcement is not the local
  node's own identity, the record is in state OUTPOINT_SPENT afterwards; if the record has
  broadcast within the minimum interval nothing is applied or relayed; otherwise the service
  key, time, signature, protocol version and address are replaced by the announcement's, the
  ban score and ban height are reset to 0, and the announcement's inventory is handed to the
  relay when the node is synced. Only the last ping and the time of the last check are left
  open. The branch of the node's own identity, which calls into another file, is left out.
\<close>

theorem Update_outpoint_spent:
  assumes newer: "sigTime mn < sigTime mnb"
    and key: "pubKeyCollateralAddress mn = pubKeyCollateralAddress mnb"
    and sig: "VerifyMessage e (pubKeyCollateralAddress mnb) (vchSig mnb) (mnb_strMessage e mnb)"
  shows "fst (Update e mnb mn sh) = (\<not> IsPoSeBanned (Check e False mn)) \<and>
         (nActiveState mn = MERCHANTNODE_OUTPOINT_SPENT \<longrightarrow>
            fst (Update e mnb mn sh) \<and> fst (snd (Update e mnb mn sh)) = 0 \<and>
            (\<not> (fMerchantNode e \<and>
                 pubKeyMerchantnode mnb
                   = CActiveMerchantnode.pubKeyMerchantnode (activeMerchantnode e)) \<longrightarrow>
               nActiveState (fst (snd (snd (Update e mnb mn sh)))) = MERCHANTNODE_OUTPOINT_SPENT \<and>
               (if IsBroadcastedWithin e mn (MERCHANTNODE_MIN_MNB_SECONDS e)
                then Update e mnb mn sh = (True, 0, Check e False mn, sh)
                else \<exists>t p sh'.
                       Update e mnb mn sh
                         = (True, 0,
                            mn\<lparr>pubKeyMerchantnode := pubKeyMerchantnode mnb,
                                sigTime := sigTime mnb,
                                vchSig := vchSig mnb,
                                nProtocolVersion := nProtocolVersion mnb,
                                addr := addr mnb,
                                nPoSeBanScore := 0,
                                nPoSeBanHeight := 0,
                                lastPing := p,
                                nTimeLastChecked := t\<rparr>, sh') \<and>
                       vRelayInv sh'
                         = (if IsSynced e
                            then vRelayInv sh @ [(MSG_MERCHANTNODE_ANNOUNCE, mnb_GetHash e mnb)]
                            else vRelayInv sh))))"
proof (intro conjI impI)
  from newer key sig show general: "fst (Update e mnb mn sh) = (\<not> IsPoSeBanned (Check e False mn))"
    by (simp add: Update_accepts)
  assume spent: "nActiveState mn = MERCHANTNODE_OUTPOINT_SPENT"
  let ?mn1 = "Check e False mn"
  have sp1: "nActiveState ?mn1 = MERCHANTNODE_OUTPOINT_SPENT"
    using spent by (rule Check_spent_state)
  then have nb: "\<not> IsPoSeBanned ?mn1" by (simp add: IsPoSeBanned_def)
  with general show acc: "fst (Update e mnb mn sh)" by simp
  from sig have cs: "mnb_CheckSignature e mnb = (True, 0)" by (simp add: mnb_CheckSignature_def)
  from newer have n1: "sigTime mn \<noteq> sigTime mnb" "\<not> sigTime mnb < sigTime mn"
    by auto
  have upd: "Update e mnb mn sh =
        (if \<not> IsBroadcastedWithin e mn (MERCHANTNODE_MIN_MNB_SECONDS e) \<or>
            (fMerchantNode e \<and>
             pubKeyMerchantnode mnb = CActiveMerchantnode.pubKeyMerchantnode (activeMerchantnode e))
         then
           (case UpdateFromNewBroadcast e ?mn1 mnb sh of
              (True, mn2, sh2) \<Rightarrow>
                (True, 0, Check e False mn2,
                 BumpAssetLastTime ''CMerchantnodeBroadcast::Update'' (mnb_Relay e mnb sh2))
            | (False, mn2, sh2) \<Rightarrow>
                (True, 0, mn2, BumpAssetLastTime ''CMerchantnodeBroadcast::Update'' sh2))
         else (True, 0, ?mn1, sh))"
    using n1 nb key cs by (simp add: Update_def Let_def)
  show "fst (snd (Update e mnb mn sh)) = 0"
    unfolding upd by (simp split: prod.splits bool.splits)
  assume other: "\<not> (fMerchantNode e \<and>
                 pubKeyMerchantnode mnb
                   = CActiveMerchantnode.pubKeyMerchantnode (activeMerchantnode e))"
  from newer have gate: "fRecovery mnb \<or> sigTime ?mn1 < sigTime mnb" by simp
  from UpdateFromNewBroadcast_spent [OF sp1 gate other, of sh]
  obtain t p sh2 where
    ufnb: "UpdateFromNewBroadcast e ?mn1 mnb sh
             = (True,
                ?mn1\<lparr>pubKeyMerchantnode := pubKeyMerchantnode mnb,
                    sigTime := sigTime mnb,
                    vchSig := vchSig mnb,
                    nProtocolVersion := nProtocolVersion mnb,
                    addr := addr mnb,
                    nPoSeBanScore := 0,
                    nPoSeBanHeight := 0,
                    lastPing := p,
                    nTimeLastChecked := t\<rparr>, sh2)"
    and rel: "vRelayInv sh2 = vRelayInv sh" by blast
  let ?new = "mn\<lparr>pubKeyMerchantnode := pubKeyMerchantnode mnb,
                    sigTime := sigTime mnb,
                    vchSig := vchSig mnb,
                    nProtocolVersion := nProtocolVersion mnb,
                    addr := addr mnb,
                    nPoSeBanScore := 0,
                    nPoSeBanHeight := 0,
                    lastPing := p,
                    nTimeLastChecked := t\<rparr>"
  have mn2: "?mn1\<lparr>pubKeyMerchantnode := pubKeyMerchantnode mnb,
                    sigTime := sigTime mnb,
                    vchSig := vchSig mnb,
                    nProtocolVersion := nProtocolVersion mnb,
                    addr := addr mnb,
                    nPoSeBanScore := 0,
                    nPoSeBanHeight := 0,
                    lastPing := p,
                    nTimeLastChecked := t\<rparr> = ?new"
    using Check_spent_cases [OF spent, of e False] by auto
  have spn: "nActiveState ?new = MERCHANTNODE_OUTPOINT_SPENT" using spent by simp
  have fin: "\<exists>t'. Check e False ?new = ?new\<lparr>nTimeLastChecked := t'\<rparr>"
  proof -
    from Check_spent_cases [OF spn, of e False]
    have "Check e False ?new = ?new\<lparr>nTimeLastChecked := t\<rparr>
          \<or> Check e False ?new = ?new\<lparr>nTimeLastChecked := GetTime e\<rparr>"
      by simp
    then show ?thesis by blast
  qed
  then obtain t' where fin': "Check e False ?new = ?new\<lparr>nTimeLastChecked := t'\<rparr>" ..
  have applied: "\<not> IsBroadcastedWithin e mn (MERCHANTNODE_MIN_MNB_SECONDS e) \<Longrightarrow>
     Update e mnb mn sh
       = (True, 0, ?new\<lparr>nTimeLastChecked := t'\<rparr>,
          BumpAssetLastTime ''CMerchantnodeBroadcast::Update'' (mnb_Relay e mnb sh2))"
    unfolding upd using ufnb mn2 fin' by simp
  have skipped: "IsBroadcastedWithin e mn (MERCHANTNODE_MIN_MNB_SECONDS e) \<Longrightarrow>
     Update e mnb mn sh = (True, 0, ?mn1, sh)"
    unfolding upd using other by auto
  show "nActiveState (fst (snd (snd (Update e mnb mn sh)))) = MERCHANTNODE_OUTPOINT_SPENT"
  proof (cases "IsBroadcastedWithin e mn (MERCHANTNODE_MIN_MNB_SECONDS e)")
    case True
    with skipped sp1 show ?thesis by simp
  next
    case False
    with applied spent show ?thesis by simp
  qed
  show "if IsBroadcastedWithin e mn (MERCHANTNODE_MIN_MNB_SECONDS e)
        then Update e mnb mn sh = (True, 0, Check e False mn, sh)
        else \<exists>t p sh'.
               Update e mnb mn sh
                 = (True, 0,
                    mn\<lparr>pubKeyMerchantnode := pubKeyMerchantnode mnb,
                        sigTime := sigTime mnb,
                        vchSig := vchSig mnb,
                        nProtocolVersion := nProtocolVersion mnb,
                        addr := addr mnb,
                        nPoSeBanScore := 0,
                        nPoSeBanHeight := 0,
                        lastPing := p,
                        nTimeLastChecked := t\<rparr>, sh') \<and>
               vRelayInv sh'
                 = (if IsSynced e
                    then vRelayInv sh @ [(MSG_MERCHANTNODE_ANNOUNCE, mnb_GetHash e mnb)]
                    else vRelayInv sh)"
  proof (cases "IsBroadcastedWithin e mn (MERCHANTNODE_MIN_MNB_SECONDS e)")
    case True
    with skipped show ?thesis by simp
  next
    case False
    let ?sh' = "BumpAssetLastTime ''CMerchantnodeBroadcast::Update'' (mnb_Relay e mnb sh2)"
    from applied [OF False]
    have u: "Update e mnb mn sh
               = (True, 0,
                  mn\<lparr>pubKeyMerchantnode := pubKeyMerchantnode mnb,
                      sigTime := sigTime mnb,
                      vchSig := vchSig mnb,
                      nProtocolVersion := nProtocolVersion mnb,
                      addr := addr mnb,
                      nPoSeBanScore := 0,
                      nPoSeBanHeight := 0,
                      lastPing := p,
                      nTimeLastChecked := t'\<rparr>, ?sh')"
      by simp
    have r: "vRelayInv ?sh'
               = (if IsSynced e
                  then vRelayInv sh @ [(MSG_MERCHANTNODE_ANNOUNCE, mnb_GetHash e mnb)]
                  else vRelayInv sh)"
      using rel by (simp add: vRelayInv_mnb_Relay)
    from u r False show ?thesis by (simp only: if_False) blast
  qed
qed

text \<open>
  A spent sample record with ban score 3, announced at 90000, and an announcement of time 99500
  from a new address: accepted, applied, relayed, and the record still spent.
\<close>

theorem Update_outpoint_spent_witness:
  "Update sample_env (sample_mnb 99500 False)
       (sample_mn\<lparr>nActiveState := MERCHANTNODE_OUTPOINT_SPENT, nPoSeBanScore := 3\<rparr>) sample_shared
     = (True, 0,
        sample_mn\<lparr>nActiveState := MERCHANTNODE_OUTPOINT_SPENT,
                  sigTime := 99500,
                  addr := \<lparr>ip = 2, port = 9999\<rparr>,
                  nPoSeBanScore := 0,
                  lastPing := CMerchantnodePing_empty,
                  nTimeLastChecked := 100000\<rparr>,
        sample_shared\<lparr>mapSeenMerchantnodePing := [0 \<mapsto> CMerchantnodePing_empty],
                       vRelayInv := [(MSG_MERCHANTNODE_ANNOUNCE, 7)],
                       vBumpAssetLastTime := [''CMerchantnodeBroadcast::Update'']\<rparr>)"
  using Update_outpoint_spent
          [of "sample_mn\<lparr>nActiveState := MERCHANTNODE_OUTPOINT_SPENT, nPoSeBanScore := 3\<rparr>"
              "sample_mnb 99500 False" sample_env sample_shared]
  by (simp add: sample_defs state_defs Update_def UpdateFromNewBroadcast_def apply_mnb_ping_def
        insert_seen_mnp_def mnb_CheckSignature_def mnb_Relay_def BumpAssetLastTime_def
        IsBroadcastedWithin_def Check_def Let_def)

text \<open>
  The claim as stated fails on a spent record that was announced 200 seconds ago, with a
  minimum interval of 300: the newer announcement is accepted, and neither its address nor
  the reset of the ban score reaches the record, and nothing is relayed.
\<close>

theorem Update_outpoint_spent_counterexample:
  "nActiveState (sample_mn\<lparr>nActiveState := MERCHANTNODE_OUTPOINT_SPENT, sigTime := 99800,
                  nPoSeBanScore := 3\<rparr>) = MERCHANTNODE_OUTPOINT_SPENT \<and>
   sigTime (sample_mn\<lparr>nActiveState := MERCHANTNODE_OUTPOINT_SPENT, sigTime := 99800,
                  nPoSeBanScore := 3\<rparr>) < sigTime (sample_mnb 99900 False) \<and>
   pubKeyCollateralAddress (sample_mn\<lparr>nActiveState := MERCHANTNODE_OUTPOINT_SPENT,
                  sigTime := 99800, nPoSeBanScore := 3\<rparr>)
     = pubKeyCollateralAddress (sample_mnb 99900 False) \<and>
   VerifyMessage sample_env (pubKeyCollateralAddress (sample_mnb 99900 False))
     (vchSig (sample_mnb 99900 False)) (mnb_strMessage sample_env (sample_mnb 99900 False)) \<and>
   Update sample_env (sample_mnb 99900 False)
       (sample_mn\<lparr>nActiveState := MERCHANTNODE_OUTPOINT_SPENT, sigTime := 99800,
                  nPoSeBanScore := 3\<rparr>) sample_shared
     = (True, 0,
        sample_mn\<lparr>nActiveState := MERCHANTNODE_OUTPOINT_SPENT, sigTime := 99800,
                  nPoSeBanScore := 3, nTimeLastChecked := 100000\<rparr>,
        sample_shared) \<and>
   addr (sample_mn\<lparr>nActiveState := MERCHANTNODE_OUTPOINT_SPENT, sigTime := 99800,
                    nPoSeBanScore := 3, nTimeLastChecked := 100000\<rparr>)
     \<noteq> addr (sample_mnb 99900 False) \<and>
   nPoSeBanScore (sample_mn\<lparr>nActiveState := MERCHANTNODE_OUTPOINT_SPENT, sigTime := 99800,
                    nPoSeBanScore := 3, nTimeLastChecked := 100000\<rparr>) \<noteq> 0 \<and>
   vRelayInv sample_shared = []"
  by (simp add: sample_defs state_defs Update_def mnb_CheckSignature_def
        IsBroadcastedWithin_def Check_def Let_def)

end
